theory Spec2Isabelle
  imports Main "HOL-Library.AList" "HOL-Library.Multiset"
begin

section \<open>Constants\<close>

text \<open>The constants of package \<^verbatim>\<open>constants\<close> that the game uses (package main declares
  the same values).\<close>

definition MaxGuesses :: nat where
  "MaxGuesses = 6"

definition WordLength :: nat where
  "WordLength = 5"

definition GuessStatusCorrect :: string where
  "GuessStatusCorrect = ''correct''"

definition GuessStatusPresent :: string where
  "GuessStatusPresent = ''present''"

definition GuessStatusAbsent :: string where
  "GuessStatusAbsent = ''absent''"

definition ErrorCodeGameOver :: string where
  "ErrorCodeGameOver = ''game_over''"

definition ErrorCodeInvalidLength :: string where
  "ErrorCodeInvalidLength = ''invalid_length''"

definition ErrorCodeNoMoreGuesses :: string where
  "ErrorCodeNoMoreGuesses = ''no_more_guesses''"

definition ErrorCodeWordNotAccepted :: string where
  "ErrorCodeWordNotAccepted = ''word_not_accepted''"

definition ErrorCodeDuplicateGuess :: string where
  "ErrorCodeDuplicateGuess = ''duplicate_guess''"

section \<open>Data model\<close>

text \<open>A Go string is a sequence of bytes: \<^typ>\<open>string\<close>, with \<^const>\<open>length\<close> for \<^verbatim>\<open>len\<close> and
  \<open>s ! i\<close> for \<^verbatim>\<open>s[i]\<close> once the index is known to be in range. A \<^verbatim>\<open>time.Time\<close> is an instant
  in nanoseconds and a \<^verbatim>\<open>time.Duration\<close> a number of nanoseconds, both integers.
  A run-time panic is a value of \<open>panic\<close>; a function that can panic returns
  \<open>panic + 'a\<close>.\<close>

type_synonym time = int

datatype panic = IndexOutOfRange | SliceBoundsOutOfRange | RandIntArgument | DivideByZero
  | NilDereference

record WordEntry =
  Word :: string
  Hint :: string

record GuessResult =
  Letter :: string
  Status :: string

record GameState =
  Guesses :: "GuessResult list list"
  CurrentRow :: int
  GameOver :: bool
  Won :: bool
  TargetWord :: string
  SessionWord :: string
  GuessHistory :: "string list"
  LastAccessTime :: time

text \<open>A \<^verbatim>\<open>rune\<close> is a Unicode code point. The limiter of \<^verbatim>\<open>golang.org/x/time/rate\<close> is kept as
  the two values \<^verbatim>\<open>rate.NewLimiter\<close> is given: its limit and its burst. \<^verbatim>\<open>rate.Limit\<close> is a
  floating-point number of events per second; the model keeps the interval between two
  events that \<^verbatim>\<open>rate.Every\<close> received instead, and \<open>Inf\<close> for \<^verbatim>\<open>rate.Inf\<close>.\<close>

type_synonym rune = nat

datatype Limit = Inf | EventEvery int

record RateLimiter =
  limit :: Limit
  burst :: int

record RateLimiterWithTime =
  Limiter :: RateLimiter
  LastAccess :: time

text \<open>\<^verbatim>\<open>App\<close>, with the fields that the functions below use (\<^verbatim>\<open>models.App\<close> for the game,
  the sessions and the handlers, package main's \<^verbatim>\<open>App\<close> for the limiters and the sweeps).
  A Go map is an association list with distinct keys, in the order a \<^verbatim>\<open>range\<close> loop visits
  it (Go leaves that order open, and the theorems hold for every order):
  \<^const>\<open>map_of\<close> reads it, \<^const>\<open>AList.update\<close> writes it, \<^const>\<open>AList.delete\<close> is
  \<^verbatim>\<open>delete\<close>. The maps hold pointers in Go; every \<^verbatim>\<open>GameState\<close> is held by one session
  only, so the model stores the states themselves and writes a state back where the code
  mutates it through the pointer. The word sets are maps to \<^verbatim>\<open>struct{}\<close>, that is sets.
  \<open>RuneBufPool\<close> is what \<^verbatim>\<open>app.RuneBufPool.Get()\<close> hands to \<^verbatim>\<open>CheckGuess\<close>: \<open>Some\<close> buffer, or
  \<open>None\<close> when there is no pool or it gives nothing usable. The mutexes, the hint map and the
  fields read by the HTTP layer only are left out.\<close>

text \<open>A slice of runes is a window on an array: \<open>backing\<close> is the array from the first
  element of the slice to its capacity, and \<open>sliceLen\<close> the length of the slice, so that
  \<^verbatim>\<open>cap(s)\<close> is the length of \<open>backing\<close>. Reslicing \<^verbatim>\<open>s[:n]\<close> reaches up to the capacity, beyond the
  length.\<close>

record runeSlice =
  backing :: "rune list"
  sliceLen :: nat

definition sliceCap :: "runeSlice \<Rightarrow> nat" where
  "sliceCap s = length (backing s)"

record App =
  WordList :: "WordEntry list"
  WordSet :: "string set"
  AcceptedWordSet :: "string set"
  GameSessions :: "(string \<times> GameState) list"
  LimiterMap :: "(string \<times> RateLimiterWithTime) list"
  RateLimitRPS :: int
  RateLimitBurst :: int
  RateLimiterTTL :: int
  SessionTTL :: int
  RuneBufPool :: "runeSlice option"

text \<open>What a call reads from its \<^verbatim>\<open>context.Context\<close> and from \<^verbatim>\<open>crypto/rand\<close>: whether the
  context is already cancelled, and the outcome of the one \<^verbatim>\<open>rand.Int\<close> the call may make
  (\<open>None\<close> is an error of the random source, \<open>Some k\<close> stands for the value \<open>k mod bound\<close>,
  so every value below the bound can come out and no other).\<close>

record ctx =
  ctxDone :: bool
  randInt :: "nat option"

section \<open>The word catalog\<close>

definition at_index :: "'a list \<Rightarrow> nat \<Rightarrow> panic + 'a" where
  "at_index xs i = (if i < length xs then Inr (xs ! i) else Inl IndexOutOfRange)"

text \<open>\<^verbatim>\<open>rand.Int(rand.Reader, bound)\<close> panics when the bound is not positive.\<close>

definition rand_Int :: "nat option \<Rightarrow> nat \<Rightarrow> panic + nat option" where
  "rand_Int r bound =
    (if bound = 0 then Inl RandIntArgument
     else Inr (case r of None \<Rightarrow> None | Some k \<Rightarrow> Some (k mod bound)))"

definition GetRandomWordEntry :: "App \<Rightarrow> ctx \<Rightarrow> panic + WordEntry" where
  "GetRandomWordEntry app c =
    (if ctxDone c then at_index (WordList app) 0
     else
       case rand_Int (randInt c) (length (WordList app)) of
         Inl p \<Rightarrow> Inl p
       | Inr None \<Rightarrow> at_index (WordList app) 0
       | Inr (Some n) \<Rightarrow> at_index (WordList app) n)"

definition GetRandomWordEntryExcluding ::
  "App \<Rightarrow> ctx \<Rightarrow> string list \<Rightarrow> panic + (WordEntry \<times> bool)" where
  "GetRandomWordEntryExcluding app c completedWords =
    (if length completedWords = 0
     then (case GetRandomWordEntry app c of Inl p \<Rightarrow> Inl p | Inr e \<Rightarrow> Inr (e, False))
     else
       let availableWords =
             filter (\<lambda>entry. Word entry \<notin> set completedWords) (WordList app)
       in
         if length availableWords = 0
         then (case GetRandomWordEntry app c of Inl p \<Rightarrow> Inl p | Inr e \<Rightarrow> Inr (e, True))
         else if ctxDone c
         then (case at_index availableWords 0 of Inl p \<Rightarrow> Inl p | Inr e \<Rightarrow> Inr (e, False))
         else
           case rand_Int (randInt c) (length availableWords) of
             Inl p \<Rightarrow> Inl p
           | Inr None \<Rightarrow>
               (case at_index availableWords 0 of Inl p \<Rightarrow> Inl p | Inr e \<Rightarrow> Inr (e, False))
           | Inr (Some n) \<Rightarrow>
               (case at_index availableWords n of Inl p \<Rightarrow> Inl p | Inr e \<Rightarrow> Inr (e, False)))"

definition IsValidWord :: "App \<Rightarrow> string \<Rightarrow> bool" where
  "IsValidWord app word = (word \<in> WordSet app)"

definition IsAcceptedWord :: "App \<Rightarrow> string \<Rightarrow> bool" where
  "IsAcceptedWord app word = (word \<in> AcceptedWordSet app)"

section \<open>The scoring engine\<close>

text \<open>Conversions between bytes, runes and strings, as the Go language defines them.
  \<^verbatim>\<open>rune(b)\<close> of a byte is its value. \<^verbatim>\<open>string(b)\<close> of a byte is the UTF-8 encoding of the code
  point of that value: the byte itself below 128 and two bytes from 128 on. \<^verbatim>\<open>[]rune(s)\<close>
  decodes the UTF-8 of \<open>s\<close>: a byte below 128 is one rune, a well-formed sequence of two to
  four bytes is one rune, and any byte that begins no well-formed sequence is the rune
  \<^verbatim>\<open>U+FFFD\<close>.\<close>

definition rune_of_byte :: "char \<Rightarrow> rune" where
  "rune_of_byte b = of_char b"

definition blank :: rune where
  "blank = 32"

definition string_of_byte :: "char \<Rightarrow> string" where
  "string_of_byte b =
    (let n = of_char b :: nat
     in if n < 128 then [b] else [char_of (192 + n div 64), char_of (128 + n mod 64)])"

definition RuneError :: rune where
  "RuneError = 65533"

definition continuation :: "nat \<Rightarrow> bool" where
  "continuation b = (128 \<le> b \<and> b \<le> 191)"

definition DecodeRune :: "nat \<Rightarrow> nat list \<Rightarrow> rune \<times> nat" where
  "DecodeRune p0 ps =
    (if p0 < 128 then (p0, 1)
     else if p0 < 194 then (RuneError, 1)
     else if 244 < p0 then (RuneError, 1)
     else
       let sz = (if p0 < 224 then 2 else if p0 < 240 then 3 else 4) :: nat;
           lo = (if p0 = 224 then 160 else if p0 = 240 then 144 else 128) :: nat;
           hi = (if p0 = 237 then 159 else if p0 = 244 then 143 else 191) :: nat
       in
         if Suc (length ps) < sz then (RuneError, 1)
         else if ps ! 0 < lo then (RuneError, 1)
         else if hi < ps ! 0 then (RuneError, 1)
         else if sz = 2 then ((p0 mod 32) * 64 + ps ! 0 mod 64, 2)
         else if \<not> continuation (ps ! 1) then (RuneError, 1)
         else if sz = 3
         then ((p0 mod 16) * 4096 + (ps ! 0 mod 64) * 64 + ps ! 1 mod 64, 3)
         else if \<not> continuation (ps ! 2) then (RuneError, 1)
         else ((p0 mod 8) * 262144 + (ps ! 0 mod 64) * 4096 + (ps ! 1 mod 64) * 64
               + ps ! 2 mod 64, 4))"

fun runes_of_bytes :: "nat list \<Rightarrow> rune list" where
  "runes_of_bytes [] = []"
| "runes_of_bytes (p0 # ps) =
    (case DecodeRune p0 ps of (r, width) \<Rightarrow> r # runes_of_bytes (drop (width - 1) ps))"

definition runes :: "string \<Rightarrow> rune list" where
  "runes s = runes_of_bytes (map of_char s)"

text \<open>The builtin \<^verbatim>\<open>copy(dst, src)\<close> overwrites the first \<^verbatim>\<open>min(len(dst), len(src))\<close> elements
  of \<open>dst\<close>.\<close>

definition copy_into :: "'a list \<Rightarrow> 'a list \<Rightarrow> 'a list" where
  "copy_into dst src = take (length dst) src @ drop (length src) dst"

text \<open>A loop \<^verbatim>\<open>for i := range n\<close> whose body may panic: the body runs on each index in turn
  and the first panic ends the loop.\<close>

fun for_range :: "nat list \<Rightarrow> (nat \<Rightarrow> 's \<Rightarrow> panic + 's) \<Rightarrow> 's \<Rightarrow> panic + 's" where
  "for_range [] body s = Inr s"
| "for_range (i # rest) body s =
    (case body i s of Inl p \<Rightarrow> Inl p | Inr s' \<Rightarrow> for_range rest body s')"

text \<open>\<^verbatim>\<open>CheckGuess\<close>. The loop state is the pair of \<^verbatim>\<open>result\<close> and \<^verbatim>\<open>targetCopy\<close>. The first
  loop marks the exact matches and blanks their runes in \<^verbatim>\<open>targetCopy\<close>.\<close>

definition pass1_step ::
  "string \<Rightarrow> string \<Rightarrow> nat \<Rightarrow> GuessResult list \<times> rune list
    \<Rightarrow> panic + GuessResult list \<times> rune list" where
  "pass1_step guess target i s =
    (case s of (result, targetCopy) \<Rightarrow>
       if length guess \<le> i then Inl IndexOutOfRange
       else if length target \<le> i then Inl IndexOutOfRange
       else if guess ! i = target ! i
       then
         (if length result \<le> i then Inl IndexOutOfRange
          else if length targetCopy \<le> i then Inl IndexOutOfRange
          else Inr (result[i := \<lparr>Letter = string_of_byte (guess ! i),
                                  Status = GuessStatusCorrect\<rparr>],
                    targetCopy[i := blank]))
       else Inr s)"

text \<open>The inner loop of the second pass: the first index \<open>j\<close> at which \<^verbatim>\<open>targetCopy[j]\<close> is
  the rune looked for (\<^verbatim>\<open>found\<close> with the \<^verbatim>\<open>break\<close>), or none.\<close>

fun scan :: "nat list \<Rightarrow> rune \<Rightarrow> rune list \<Rightarrow> panic + nat option" where
  "scan [] r targetCopy = Inr None"
| "scan (j # rest) r targetCopy =
    (if length targetCopy \<le> j then Inl IndexOutOfRange
     else if targetCopy ! j = r then Inr (Some j)
     else scan rest r targetCopy)"

definition pass2_step ::
  "string \<Rightarrow> nat \<Rightarrow> GuessResult list \<times> rune list \<Rightarrow> panic + GuessResult list \<times> rune list" where
  "pass2_step guess i s =
    (case s of (result, targetCopy) \<Rightarrow>
       if length result \<le> i then Inl IndexOutOfRange
       else if Status (result ! i) = []
       then
         (if length guess \<le> i then Inl IndexOutOfRange
          else
            let letter = string_of_byte (guess ! i)
            in
              case scan [0..<WordLength] (rune_of_byte (guess ! i)) targetCopy of
                Inl p \<Rightarrow> Inl p
              | Inr (Some j) \<Rightarrow>
                  Inr (result[i := \<lparr>Letter = letter, Status = GuessStatusPresent\<rparr>],
                       targetCopy[j := blank])
              | Inr None \<Rightarrow>
                  Inr (result[i := \<lparr>Letter = letter, Status = GuessStatusAbsent\<rparr>],
                       targetCopy))
       else Inr s)"

text \<open>The scratch buffer: with a pooled buffer, \<^verbatim>\<open>pooledBuf[:WordLength]\<close> (a panic when the
  capacity of the buffer is less, whatever its length) overwritten with the runes of the
  target; without one, the runes of the target.\<close>

definition targetCopy_of :: "runeSlice option \<Rightarrow> string \<Rightarrow> panic + rune list" where
  "targetCopy_of pool target =
    (case pool of
       Some pooledBuf \<Rightarrow>
         if sliceCap pooledBuf < WordLength then Inl SliceBoundsOutOfRange
         else Inr (copy_into (take WordLength (backing pooledBuf)) (runes target))
     | None \<Rightarrow> Inr (runes target))"

text \<open>The two loops of \<^verbatim>\<open>CheckGuess\<close>, from the making of \<^verbatim>\<open>result\<close> and \<^verbatim>\<open>targetCopy\<close> to the end
  of the second loop: they leave \<^verbatim>\<open>result\<close> and \<^verbatim>\<open>targetCopy\<close>. \<^verbatim>\<open>CheckGuess\<close> returns \<^verbatim>\<open>result\<close>;
  the buffer goes back to the pool, zeroed up to its length, and is not part of what is
  returned.\<close>

definition CheckGuess_loops ::
  "string \<Rightarrow> string \<Rightarrow> runeSlice option \<Rightarrow> panic + GuessResult list \<times> rune list" where
  "CheckGuess_loops guess target pool =
    (case targetCopy_of pool target of
       Inl p \<Rightarrow> Inl p
     | Inr targetCopy \<Rightarrow>
         (case for_range [0..<WordLength] (pass1_step guess target)
                 (replicate WordLength \<lparr>Letter = [], Status = []\<rparr>, targetCopy) of
            Inl p \<Rightarrow> Inl p
          | Inr s1 \<Rightarrow> for_range [0..<WordLength] (pass2_step guess) s1))"

definition CheckGuess :: "string \<Rightarrow> string \<Rightarrow> runeSlice option \<Rightarrow> panic + GuessResult list" where
  "CheckGuess guess target pool =
    (case CheckGuess_loops guess target pool of
       Inl p \<Rightarrow> Inl p
     | Inr (result, targetCopy) \<Rightarrow> Inr result)"

section \<open>The game state machine\<close>

text \<open>\<^verbatim>\<open>UpdateGameState\<close> of \<^verbatim>\<open>internal/game/game.go\<close>. The Go function mutates \<^verbatim>\<open>*game\<close>; the
  model returns the new state. \<^verbatim>\<open>app\<close> and \<^verbatim>\<open>ctx\<close> are read for logging only and are left
  out; \<open>now\<close> is the reading of \<^verbatim>\<open>time.Now()\<close>. The write
  \<^verbatim>\<open>game.Guesses[game.CurrentRow] = result\<close> panics when the index is outside the slice.\<close>

definition UpdateGameState ::
  "time \<Rightarrow> GameState \<Rightarrow> string \<Rightarrow> string \<Rightarrow> GuessResult list \<Rightarrow> bool \<Rightarrow> panic + GameState" where
  "UpdateGameState now game guess targetWord result isInvalid =
    (if int MaxGuesses \<le> CurrentRow game then Inr game
     else if CurrentRow game < 0 then Inl IndexOutOfRange
     else if int (length (Guesses game)) \<le> CurrentRow game then Inl IndexOutOfRange
     else
       let g1 = game\<lparr>Guesses := (Guesses game)[nat (CurrentRow game) := result],
                     GuessHistory := GuessHistory game @ [guess],
                     LastAccessTime := now\<rparr>;
           g2 = (if \<not> isInvalid \<and> guess = targetWord
                 then g1\<lparr>Won := True, GameOver := True\<rparr>
                 else
                   let g = g1\<lparr>CurrentRow := CurrentRow g1 + 1\<rparr>
                   in if int MaxGuesses \<le> CurrentRow g then g\<lparr>GameOver := True\<rparr> else g)
       in Inr (if GameOver g2 then g2\<lparr>TargetWord := targetWord\<rparr> else g2))"

text \<open>The board of a new game: \<^verbatim>\<open>lo.Times(MaxGuesses, ...)\<close> of rows of \<^verbatim>\<open>WordLength\<close> zero
  \<^verbatim>\<open>GuessResult\<close> values.\<close>

definition emptyBoard :: "GuessResult list list" where
  "emptyBoard = replicate MaxGuesses (replicate WordLength \<lparr>Letter = [], Status = []\<rparr>)"

definition newGameState :: "string \<Rightarrow> time \<Rightarrow> GameState" where
  "newGameState sessionWord now =
    \<lparr>Guesses = emptyBoard, CurrentRow = 0, GameOver = False, Won = False, TargetWord = [],
     SessionWord = sessionWord, GuessHistory = [], LastAccessTime = now\<rparr>"

text \<open>\<^verbatim>\<open>CreateNewGame\<close> and \<^verbatim>\<open>CreateNewGameWithCompletedWords\<close>: the new state is stored under
  the session id (no lock is taken here) and returned.\<close>

definition CreateNewGame :: "App \<Rightarrow> ctx \<Rightarrow> time \<Rightarrow> string \<Rightarrow> panic + (GameState \<times> App)" where
  "CreateNewGame app c now sessionID =
    (case GetRandomWordEntry app c of
       Inl p \<Rightarrow> Inl p
     | Inr selectedEntry \<Rightarrow>
         let game = newGameState (Word selectedEntry) now
         in Inr (game, app\<lparr>GameSessions := AList.update sessionID game (GameSessions app)\<rparr>))"

definition CreateNewGameWithCompletedWords ::
  "App \<Rightarrow> ctx \<Rightarrow> time \<Rightarrow> string \<Rightarrow> string list \<Rightarrow> panic + ((GameState \<times> bool) \<times> App)" where
  "CreateNewGameWithCompletedWords app c now sessionID completedWords =
    (case GetRandomWordEntryExcluding app c completedWords of
       Inl p \<Rightarrow> Inl p
     | Inr (selectedEntry, needsReset) \<Rightarrow>
         let game = newGameState (Word selectedEntry) now
         in Inr ((game, needsReset),
                 app\<lparr>GameSessions := AList.update sessionID game (GameSessions app)\<rparr>))"

text \<open>\<^verbatim>\<open>GetTargetWord\<close>: an empty session word is filled in with a random entry's word.\<close>

definition GetTargetWord :: "App \<Rightarrow> ctx \<Rightarrow> GameState \<Rightarrow> panic + (string \<times> GameState)" where
  "GetTargetWord app c game =
    (if SessionWord game = []
     then (case GetRandomWordEntry app c of
             Inl p \<Rightarrow> Inl p
           | Inr selectedEntry \<Rightarrow>
               Inr (Word selectedEntry, game\<lparr>SessionWord := Word selectedEntry\<rparr>))
     else Inr (SessionWord game, game))"

section \<open>The session cache\<close>

text \<open>\<^verbatim>\<open>GetGameState\<close> of package \<^verbatim>\<open>session\<close> runs in two steps, each of them atomic with
  respect to the lock it holds or, for the creation, to the one map write it makes:
  the lookup under the read lock, and then either the touch of the state found (under the
  write lock) or \<^verbatim>\<open>CreateNewGame\<close>, which takes no lock and looks nothing up again.
  The state found is touched through its pointer; the map shows the touch while it still
  holds that state.\<close>

definition GetGameState_lookup :: "App \<Rightarrow> string \<Rightarrow> GameState option" where
  "GetGameState_lookup app sessionID = map_of (GameSessions app) sessionID"

definition GetGameState_finish ::
  "GameState option \<Rightarrow> App \<Rightarrow> ctx \<Rightarrow> time \<Rightarrow> string \<Rightarrow> panic + (GameState \<times> App)" where
  "GetGameState_finish seen app c now sessionID =
    (case seen of
       Some gameState \<Rightarrow>
         let touched = gameState\<lparr>LastAccessTime := now\<rparr>
         in Inr (touched,
                 if map_of (GameSessions app) sessionID = Some gameState
                 then app\<lparr>GameSessions := AList.update sessionID touched (GameSessions app)\<rparr>
                 else app)
     | None \<Rightarrow> CreateNewGame app c now sessionID)"

definition GetGameState :: "App \<Rightarrow> ctx \<Rightarrow> time \<Rightarrow> string \<Rightarrow> panic + (GameState \<times> App)" where
  "GetGameState app c now sessionID =
    GetGameState_finish (GetGameState_lookup app sessionID) app c now sessionID"

definition SaveGameState :: "App \<Rightarrow> time \<Rightarrow> string \<Rightarrow> GameState \<Rightarrow> App" where
  "SaveGameState app now sessionID game =
    app\<lparr>GameSessions :=
          AList.update sessionID (game\<lparr>LastAccessTime := now\<rparr>) (GameSessions app)\<rparr>"

text \<open>Calls of \<^verbatim>\<open>GetGameState\<close> for one session id running concurrently: every call is at
  its start, between its two steps (holding what the lookup saw) or has returned; a
  schedule names, step by step, the call that moves next, with the context and the clock
  reading that step uses. \<open>allocated\<close> counts the \<^verbatim>\<open>GameState\<close> values \<^verbatim>\<open>CreateNewGame\<close> has
  made.\<close>

datatype call = Start | Looked "GameState option" | Returned GameState

record world =
  shared :: App
  calls :: "call list"
  allocated :: nat

definition step :: "string \<Rightarrow> nat \<times> ctx \<times> time \<Rightarrow> world \<Rightarrow> panic + world" where
  "step sessionID move w =
    (case move of (t, c, now) \<Rightarrow>
       if length (calls w) \<le> t then Inr w
       else
         case calls w ! t of
           Start \<Rightarrow>
             Inr (w\<lparr>calls := (calls w)[t := Looked (GetGameState_lookup (shared w) sessionID)]\<rparr>)
         | Looked seen \<Rightarrow>
             (case GetGameState_finish seen (shared w) c now sessionID of
                Inl p \<Rightarrow> Inl p
              | Inr (game, app') \<Rightarrow>
                  Inr (w\<lparr>shared := app', calls := (calls w)[t := Returned game],
                         allocated := allocated w + (if seen = None then 1 else 0)\<rparr>))
         | Returned game \<Rightarrow> Inr w)"

fun run :: "string \<Rightarrow> (nat \<times> ctx \<times> time) list \<Rightarrow> world \<Rightarrow> panic + world" where
  "run sessionID [] w = Inr w"
| "run sessionID (move # schedule) w =
    (case step sessionID move w of Inl p \<Rightarrow> Inl p | Inr w' \<Rightarrow> run sessionID schedule w')"

section \<open>The guess handler\<close>

text \<open>\<^verbatim>\<open>NormalizeGuess\<close> is \<^verbatim>\<open>strings.ToUpper(strings.TrimSpace(input))\<close>. The two functions
  belong to Go's library, not to the repository; the handler takes them as the parameter
  \<open>lib\<close>, so that what is proved of the handler holds for the library's functions, whatever
  they do on Unicode text.\<close>

record strings =
  ToUpper :: "string \<Rightarrow> string"
  TrimSpace :: "string \<Rightarrow> string"

definition NormalizeGuess :: "strings \<Rightarrow> string \<Rightarrow> string" where
  "NormalizeGuess lib input = ToUpper lib (TrimSpace lib input)"

definition ValidateGameState :: "GameState \<Rightarrow> string option" where
  "ValidateGameState game = (if GameOver game then Some ErrorCodeGameOver else None)"

text \<open>\<^verbatim>\<open>ProcessGuess\<close> and \<^verbatim>\<open>GuessHandler\<close>. The handler is given the session id that
  \<^verbatim>\<open>GetOrCreateSession\<close> returned and the form value \<^verbatim>\<open>guess\<close>; it returns the error code it
  renders (\<open>None\<close> when the guess was played) with the application state it leaves.
  \<open>c\<close> and \<open>now\<close> serve \<^verbatim>\<open>GetGameState\<close>, \<open>c'\<close> serves \<^verbatim>\<open>GetTargetWord\<close>, and \<open>now'\<close> and
  \<open>now''\<close> are the clock readings of \<^verbatim>\<open>UpdateGameState\<close> and \<^verbatim>\<open>SaveGameState\<close>.\<close>

definition ProcessGuess ::
  "App \<Rightarrow> ctx \<Rightarrow> time \<Rightarrow> time \<Rightarrow> string \<Rightarrow> GameState \<Rightarrow> string
    \<Rightarrow> panic + (string option \<times> App)" where
  "ProcessGuess app c' now' now'' sessionID gameState guess =
    (if length guess \<noteq> WordLength then Inr (Some ErrorCodeInvalidLength, app)
     else if int MaxGuesses \<le> CurrentRow gameState then Inr (Some ErrorCodeNoMoreGuesses, app)
     else
       case GetTargetWord app c' gameState of
         Inl p \<Rightarrow> Inl p
       | Inr (targetWord, game1) \<Rightarrow>
           let isInvalid = \<not> IsValidWord app guess
           in
             case CheckGuess guess targetWord (RuneBufPool app) of
               Inl p \<Rightarrow> Inl p
             | Inr result \<Rightarrow>
                 (case UpdateGameState now' game1 guess targetWord result isInvalid of
                    Inl p \<Rightarrow> Inl p
                  | Inr game2 \<Rightarrow> Inr (None, SaveGameState app now'' sessionID game2)))"

definition GuessHandler ::
  "strings \<Rightarrow> App \<Rightarrow> ctx \<Rightarrow> ctx \<Rightarrow> time \<Rightarrow> time \<Rightarrow> time \<Rightarrow> string \<Rightarrow> string
    \<Rightarrow> panic + (string option \<times> App)" where
  "GuessHandler lib app c c' now now' now'' sessionID input =
    (case GetGameState app c now sessionID of
       Inl p \<Rightarrow> Inl p
     | Inr (gameState, app1) \<Rightarrow>
         (case ValidateGameState gameState of
            Some errCode \<Rightarrow> Inr (Some errCode, app1)
          | None \<Rightarrow>
              let guess = NormalizeGuess lib input
              in
                if \<not> IsAcceptedWord app1 guess then Inr (Some ErrorCodeWordNotAccepted, app1)
                else if guess \<in> set (GuessHistory gameState)
                then Inr (Some ErrorCodeDuplicateGuess, app1)
                else ProcessGuess app1 c' now' now'' sessionID gameState guess))"

text \<open>\<^verbatim>\<open>RetryWordHandler\<close>: a fresh state that keeps the session word only.\<close>

definition RetryWordHandler :: "App \<Rightarrow> ctx \<Rightarrow> time \<Rightarrow> string \<Rightarrow> panic + App" where
  "RetryWordHandler app c now sessionID =
    (case map_of (GameSessions app) sessionID of
       None \<Rightarrow>
         (case CreateNewGame app c now sessionID of
            Inl p \<Rightarrow> Inl p
          | Inr (game, app') \<Rightarrow> Inr app')
     | Some gameState \<Rightarrow>
         Inr (app\<lparr>GameSessions :=
                    AList.update sessionID (newGameState (SessionWord gameState) now)
                      (GameSessions app)\<rparr>))"

section \<open>The rate limiters\<close>

definition Second :: int where
  "Second = 1000000000"

text \<open>Integer division in Go truncates towards zero and panics on a zero divisor.\<close>

definition go_div :: "int \<Rightarrow> int \<Rightarrow> panic + int" where
  "go_div a b =
    (if b = 0 then Inl DivideByZero
     else if (a < 0) = (b < 0) then Inr (\<bar>a\<bar> div \<bar>b\<bar>)
     else Inr (- (\<bar>a\<bar> div \<bar>b\<bar>)))"

definition rate_Every :: "int \<Rightarrow> Limit" where
  "rate_Every interval = (if interval \<le> 0 then Inf else EventEvery interval)"

definition NewLimiter :: "Limit \<Rightarrow> int \<Rightarrow> RateLimiter" where
  "NewLimiter r b = \<lparr>limit = r, burst = b\<rparr>"

text \<open>\<^verbatim>\<open>getLimiter\<close>, one call with no other goroutine in between: the lookup under
  the read lock, then under the write lock the second lookup and either the touch or the
  creation. After a hit, \<^verbatim>\<open>limWithTime\<close> is assigned again by the second lookup and
  dereferenced whether or not that lookup found the key.\<close>

definition getLimiter :: "App \<Rightarrow> time \<Rightarrow> string \<Rightarrow> panic + (RateLimiter \<times> App)" where
  "getLimiter app now key =
    (case map_of (LimiterMap app) key of
       Some seen \<Rightarrow>
         (case map_of (LimiterMap app) key of
            Some limWithTime \<Rightarrow>
              Inr (Limiter limWithTime,
                   app\<lparr>LimiterMap :=
                         AList.update key (limWithTime\<lparr>LastAccess := now\<rparr>) (LimiterMap app)\<rparr>)
          | None \<Rightarrow> Inl NilDereference)
     | None \<Rightarrow>
         (case map_of (LimiterMap app) key of
            Some limWithTime \<Rightarrow>
              Inr (Limiter limWithTime,
                   app\<lparr>LimiterMap :=
                         AList.update key (limWithTime\<lparr>LastAccess := now\<rparr>) (LimiterMap app)\<rparr>)
          | None \<Rightarrow>
              let rps = (if RateLimitRPS app \<le> 0 then 1 else RateLimitRPS app)
              in
                case go_div Second rps of
                  Inl p \<Rightarrow> Inl p
                | Inr interval \<Rightarrow>
                    let lim = NewLimiter (rate_Every interval) (RateLimitBurst app)
                    in Inr (lim,
                            app\<lparr>LimiterMap :=
                                  AList.update key \<lparr>Limiter = lim, LastAccess = now\<rparr>
                                    (LimiterMap app)\<rparr>)))"

section \<open>The eviction sweeps\<close>

text \<open>\<^verbatim>\<open>cleanupStaleSessions\<close> and \<^verbatim>\<open>cleanupStaleRateLimiters\<close> at the clock reading \<open>now\<close>.
  A loop over a map that deletes the entry it is visiting is a fold over the entries the
  map had when the loop began. \<^verbatim>\<open>sort.Slice\<close> may order entries of equal \<^verbatim>\<open>lastAccess\<close>
  either way and the map may be visited in any order; \<^const>\<open>sort_key\<close> keeps equal entries
  in the order of the list, and the list is in any order, so every outcome of the code
  is the outcome of the model on some list of the same entries. The counters are only
  logged and are left out.\<close>



definition wrap64 :: "int \<Rightarrow> int" where
  "wrap64 x = (x + 2 ^ 63) mod 2 ^ 64 - 2 ^ 63"

definition cutoffTime :: "time \<Rightarrow> int \<Rightarrow> time" where
  "cutoffTime now ttl = now + wrap64 (- ttl)"


definition removeStale :: "time \<Rightarrow> (string \<times> RateLimiterWithTime) list
    \<Rightarrow> (string \<times> RateLimiterWithTime) list" where
  "removeStale cutoff m =
    fold (\<lambda>(key, limWithTime) m'.
            if LastAccess limWithTime < cutoff then AList.delete key m' else m') m m"

definition emergencyCleanup :: "(string \<times> RateLimiterWithTime) list
    \<Rightarrow> (string \<times> RateLimiterWithTime) list" where
  "emergencyCleanup m =
    (if 10000 < length m
     then
       if 50000 < length m
       then
         let limiters = map (\<lambda>(key, limWithTime). (key, LastAccess limWithTime)) m;
             sorted = sort_key snd limiters;
             entriesToRemove = length limiters div 2
         in fold (\<lambda>i m'. AList.delete (fst (sorted ! i)) m') [0..<entriesToRemove] m
       else m
     else m)"

definition cleanupStaleRateLimiters :: "time \<Rightarrow> App \<Rightarrow> App" where
  "cleanupStaleRateLimiters now app =
    (let cutoff = cutoffTime now (RateLimiterTTL app)
     in app\<lparr>LimiterMap := emergencyCleanup (removeStale cutoff (LimiterMap app))\<rparr>)"

section \<open>Invariants of the scoring loops\<close>












section \<open>Example values\<close>

text \<open>A catalog of two words, an application over it, and the game states, sessions and
  limiter maps on which the theorems below are instantiated.\<close>

definition twoWords :: "WordEntry list" where
  "twoWords = [\<lparr>Word = ''APPLE'', Hint = ''fruit''\<rparr>, \<lparr>Word = ''TABLE'', Hint = ''furniture''\<rparr>]"

definition testApp :: App where
  "testApp =
    \<lparr>WordList = twoWords, WordSet = {''APPLE'', ''TABLE''},
     AcceptedWordSet = {''APPLE'', ''TABLE'', ''ROBIN''}, GameSessions = [], LimiterMap = [],
     RateLimitRPS = 5, RateLimitBurst = 10, RateLimiterTTL = 3600000000000,
     SessionTTL = 10800000000000, RuneBufPool = Some \<lparr>backing = replicate 5 0, sliceLen = 5\<rparr>\<rparr>"

definition rowAllCorrect :: "GuessResult list" where
  "rowAllCorrect = map (\<lambda>c. \<lparr>Letter = [c], Status = GuessStatusCorrect\<rparr>) ''APPLE''"

definition rowAllAbsent :: "GuessResult list" where
  "rowAllAbsent = map (\<lambda>c. \<lparr>Letter = [c], Status = GuessStatusAbsent\<rparr>) ''ROBIN''"

definition wonFirstRow :: GameState where
  "wonFirstRow =
    \<lparr>Guesses = emptyBoard[0 := rowAllCorrect], CurrentRow = 0, GameOver = True, Won = True,
     TargetWord = ''APPLE'', SessionWord = ''APPLE'', GuessHistory = [''APPLE''],
     LastAccessTime = 10\<rparr>"

definition lostGame :: GameState where
  "lostGame =
    \<lparr>Guesses = replicate MaxGuesses rowAllAbsent, CurrentRow = 6, GameOver = True, Won = False,
     TargetWord = ''APPLE'', SessionWord = ''APPLE'',
     GuessHistory = [''ROBIN'', ''ROBIM'', ''ROBIL'', ''ROBIK'', ''ROBIJ'', ''ROBIH''],
     LastAccessTime = 10\<rparr>"

text \<open>What \<^verbatim>\<open>strings.TrimSpace\<close> and \<^verbatim>\<open>strings.ToUpper\<close> do on ASCII text: the white space
  trimmed is tab, line feed, vertical tab, form feed, carriage return and space, and the
  letters raised are \<^verbatim>\<open>a\<close> to \<^verbatim>\<open>z\<close>. The examples apply them to ASCII strings only.\<close>

definition asciiSpace :: "char \<Rightarrow> bool" where
  "asciiSpace ch = (of_char ch \<in> {9, 10, 11, 12, 13, 32 :: nat})"

definition asciiUpper :: "char \<Rightarrow> char" where
  "asciiUpper ch =
    (let n = of_char ch :: nat in if 97 \<le> n \<and> n \<le> 122 then char_of (n - 32) else ch)"

definition asciiStrings :: strings where
  "asciiStrings =
    \<lparr>ToUpper = map asciiUpper,
     TrimSpace = (\<lambda>s. rev (dropWhile asciiSpace (rev (dropWhile asciiSpace s))))\<rparr>"

definition ctx0 :: ctx where
  "ctx0 = \<lparr>ctxDone = False, randInt = Some 0\<rparr>"

definition ctx1 :: ctx where
  "ctx1 = \<lparr>ctxDone = False, randInt = Some 1\<rparr>"

definition oneGuessGame :: GameState where
  "oneGuessGame =
    \<lparr>Guesses = emptyBoard[0 := rowAllAbsent], CurrentRow = 1, GameOver = False, Won = False,
     TargetWord = [], SessionWord = ''APPLE'', GuessHistory = [''ROBIN''],
     LastAccessTime = 10\<rparr>"

definition playingApp :: App where
  "playingApp = testApp\<lparr>GameSessions := [(''s1'', oneGuessGame)]\<rparr>"

definition staleApp :: App where
  "staleApp =
    testApp\<lparr>GameSessions := [(''s1'', oneGuessGame), (''s2'', wonFirstRow\<lparr>LastAccessTime := 950\<rparr>)],
            LimiterMap := [(''10.0.0.1'', \<lparr>Limiter = NewLimiter (EventEvery 200000000) 10,
                                          LastAccess = 20\<rparr>),
                           (''10.0.0.2'', \<lparr>Limiter = NewLimiter (EventEvery 200000000) 10,
                                          LastAccess = 990\<rparr>)],
            SessionTTL := 100, RateLimiterTTL := 50\<rparr>"


definition manyLimiters :: "nat \<Rightarrow> (string \<times> RateLimiterWithTime) list" where
  "manyLimiters n =
    map (\<lambda>i. (replicate i (CHR ''k''),
              \<lparr>Limiter = NewLimiter (EventEvery 200000000) 10, LastAccess = int i\<rparr>)) [0..<n]"

definition crowdedApp :: App where
  "crowdedApp = testApp\<lparr>LimiterMap := manyLimiters 50001, RateLimiterTTL := 0\<rparr>"

section \<open>Terminal states and the transition\<close>

text \<open>C1, as the code has it. The guard of \<^verbatim>\<open>UpdateGameState\<close> tests
  \<^verbatim>\<open>CurrentRow >= MaxGuesses\<close>, not \<^verbatim>\<open>GameOver\<close>: on every state whose current row has reached
  the maximum (the state of a lost game) the transition returns the state as it was, for
  every guess and score row, so no row is written, nothing is appended to the history and
  \<open>CurrentRow\<close>, \<open>Won\<close>, \<open>GameOver\<close> and \<open>TargetWord\<close> keep their values. Every game that is
  over, won or lost, is kept by the guess handler: for a session whose game is over it
  renders the game-over error for every guess and changes nothing of the state but the
  time of last access.\<close>

theorem terminal_state_kept:
  "(int MaxGuesses \<le> CurrentRow game
      \<longrightarrow> UpdateGameState now' game guess targetWord result isInvalid = Inr game)
   \<and> (map_of (GameSessions app) sid = Some game \<and> GameOver game
        \<longrightarrow> GuessHandler lib app c c' now now' now'' sid input
             = Inr (Some ErrorCodeGameOver,
                    app\<lparr>GameSessions :=
                          AList.update sid (game\<lparr>LastAccessTime := now\<rparr>) (GameSessions app)\<rparr>))"
  by (simp add: UpdateGameState_def GuessHandler_def GetGameState_def GetGameState_lookup_def
      GetGameState_finish_def ValidateGameState_def Let_def)

theorem terminal_state_kept_witness:
  "int MaxGuesses \<le> CurrentRow lostGame
   \<and> UpdateGameState 20 lostGame ''TABLE'' ''APPLE'' rowAllAbsent False = Inr lostGame
   \<and> map_of (GameSessions (testApp\<lparr>GameSessions := [(''s1'', wonFirstRow)]\<rparr>)) ''s1''
       = Some wonFirstRow
   \<and> GameOver wonFirstRow
   \<and> GuessHandler asciiStrings (testApp\<lparr>GameSessions := [(''s1'', wonFirstRow)]\<rparr>) ctx0 ctx0 20 21 22
         ''s1'' ''table''
       = Inr (Some ErrorCodeGameOver,
              testApp\<lparr>GameSessions := [(''s1'', wonFirstRow\<lparr>LastAccessTime := 20\<rparr>)]\<rparr>)"
proof -
  have h: "int MaxGuesses \<le> CurrentRow lostGame"
    by (simp add: MaxGuesses_def lostGame_def)
  have s: "map_of (GameSessions (testApp\<lparr>GameSessions := [(''s1'', wonFirstRow)]\<rparr>)) ''s1''
       = Some wonFirstRow"
    by simp
  have o: "GameOver wonFirstRow" by (simp add: wonFirstRow_def)
  note t = terminal_state_kept [where game = lostGame and now' = 20 and guess = "''TABLE''"
      and targetWord = "''APPLE''" and result = rowAllAbsent and isInvalid = False
      and app = "testApp\<lparr>GameSessions := [(''s1'', wonFirstRow)]\<rparr>" and sid = "''s1''"
      and lib = asciiStrings and c = ctx0 and c' = ctx0 and now = 20 and now'' = 22
      and input = "''table''"]
  from t h have a: "UpdateGameState 20 lostGame ''TABLE'' ''APPLE'' rowAllAbsent False = Inr lostGame"
    by simp
  note t' = terminal_state_kept [where game = wonFirstRow and now' = 21 and guess = "''TABLE''"
      and targetWord = "''APPLE''" and result = rowAllAbsent and isInvalid = False
      and app = "testApp\<lparr>GameSessions := [(''s1'', wonFirstRow)]\<rparr>" and sid = "''s1''"
      and lib = asciiStrings and c = ctx0 and c' = ctx0 and now = 20 and now'' = 22
      and input = "''table''"]
  from t' s o have b: "GuessHandler asciiStrings (testApp\<lparr>GameSessions := [(''s1'', wonFirstRow)]\<rparr>) ctx0 ctx0 20 21 22
         ''s1'' ''table''
       = Inr (Some ErrorCodeGameOver,
              testApp\<lparr>GameSessions := [(''s1'', wonFirstRow\<lparr>LastAccessTime := 20\<rparr>)]\<rparr>)"
    by simp
  show ?thesis
    by (intro conjI) (rule h a s o b)+
qed

text \<open>C1 as stated fails: a game won on the first row is terminal (\<open>GameOver\<close> and \<open>Won\<close>),
  it is the state \<^verbatim>\<open>UpdateGameState\<close> itself produces from a new game, and a further
  transition on it appends to the history and moves the current row.\<close>

theorem UpdateGameState_won_state_counterexample:
  "UpdateGameState 10 (newGameState ''APPLE'' 0) ''APPLE'' ''APPLE'' rowAllCorrect False
     = Inr wonFirstRow
   \<and> GameOver wonFirstRow \<and> Won wonFirstRow
   \<and> UpdateGameState 20 wonFirstRow ''TABLE'' ''APPLE'' rowAllAbsent False
     = Inr (wonFirstRow\<lparr>Guesses := emptyBoard[0 := rowAllAbsent], CurrentRow := 1,
              GuessHistory := [''APPLE'', ''TABLE''], LastAccessTime := 20\<rparr>)"
  by (simp add: UpdateGameState_def newGameState_def wonFirstRow_def emptyBoard_def
      MaxGuesses_def WordLength_def)

section \<open>Choosing a target word\<close>

lemma at_index_in: "i < length xs \<Longrightarrow> at_index xs i = Inr (xs ! i)"
  by (simp add: at_index_def)

lemma GetRandomWordEntry_member:
  assumes "WordList app \<noteq> []"
  shows "\<exists>e. GetRandomWordEntry app c = Inr e \<and> e \<in> set (WordList app)"
  using assms
  by (auto simp: GetRandomWordEntry_def rand_Int_def at_index_def split: option.splits)

text \<open>C5. On a catalog that has a word, \<^verbatim>\<open>GetRandomWordEntryExcluding\<close> does not panic and
  returns an entry of the catalog, whatever the context and the random source do. When the
  completed words cover every word of the catalog the flag is true; when they do not (in
  particular when they are a proper subset of the catalog's words, the empty list
  included) the entry's word is not among them and the flag is false.\<close>

theorem GetRandomWordEntryExcluding_result:
  assumes "WordList app \<noteq> []"
  shows "\<exists>e exhausted.
           GetRandomWordEntryExcluding app c completedWords = Inr (e, exhausted)
           \<and> e \<in> set (WordList app)
           \<and> (Word ` set (WordList app) \<subseteq> set completedWords \<longrightarrow> exhausted)
           \<and> (\<not> Word ` set (WordList app) \<subseteq> set completedWords
                \<longrightarrow> Word e \<notin> set completedWords \<and> \<not> exhausted)"
proof -
  let ?avail = "filter (\<lambda>entry. Word entry \<notin> set completedWords) (WordList app)"
  obtain e0 where e0: "GetRandomWordEntry app c = Inr e0" "e0 \<in> set (WordList app)"
    using GetRandomWordEntry_member [OF assms] by blast
  show ?thesis
  proof (cases "completedWords = []")
    case True
    with e0 assms show ?thesis
      by (auto simp: GetRandomWordEntryExcluding_def)
  next
    case ne: False
    show ?thesis
    proof (cases "?avail = []")
      case True
      then have cover: "Word ` set (WordList app) \<subseteq> set completedWords"
        by (auto simp: filter_empty_conv)
      from ne True e0 cover show ?thesis
        by (auto simp: GetRandomWordEntryExcluding_def)
    next
      case False
      then have nocover: "\<not> Word ` set (WordList app) \<subseteq> set completedWords"
        by (auto simp: filter_empty_conv)
      have pick: "\<And>i. i < length ?avail \<Longrightarrow>
          ?avail ! i \<in> set (WordList app) \<and> Word (?avail ! i) \<notin> set completedWords"
      proof -
        fix i assume "i < length ?avail"
        then have "?avail ! i \<in> set ?avail" by (rule nth_mem)
        then show "?avail ! i \<in> set (WordList app) \<and> Word (?avail ! i) \<notin> set completedWords"
          by simp
      qed
      have pos: "0 < length ?avail" using False by simp
      obtain i where i: "i < length ?avail"
        "GetRandomWordEntryExcluding app c completedWords = Inr (?avail ! i, False)"
      proof (cases "ctxDone c \<or> randInt c = None")
        case True
        with ne False pos have
          "GetRandomWordEntryExcluding app c completedWords = Inr (?avail ! 0, False)"
          by (auto simp: GetRandomWordEntryExcluding_def Let_def rand_Int_def at_index_def)
        with pos that show ?thesis by blast
      next
        case False
        then obtain k where k: "randInt c = Some k" "\<not> ctxDone c" by auto
        have lt: "k mod length ?avail < length ?avail" using pos by simp
        from ne \<open>?avail \<noteq> []\<close> k lt have
          "GetRandomWordEntryExcluding app c completedWords
             = Inr (?avail ! (k mod length ?avail), False)"
          by (simp add: GetRandomWordEntryExcluding_def Let_def rand_Int_def at_index_def)
        with lt that show ?thesis by blast
      qed
      with pick [OF i(1)] nocover show ?thesis by auto
    qed
  qed
qed

theorem GetRandomWordEntryExcluding_result_witness:
  "WordList testApp \<noteq> []
   \<and> (\<exists>e exhausted.
         GetRandomWordEntryExcluding testApp \<lparr>ctxDone = False, randInt = Some 7\<rparr> [''APPLE'']
           = Inr (e, exhausted)
         \<and> Word e = ''TABLE'' \<and> \<not> exhausted)
   \<and> (\<exists>e exhausted.
         GetRandomWordEntryExcluding testApp \<lparr>ctxDone = False, randInt = Some 7\<rparr>
           [''APPLE'', ''TABLE''] = Inr (e, exhausted)
         \<and> e \<in> set (WordList testApp) \<and> exhausted)"
proof -
  have ne: "WordList testApp \<noteq> []"
    by (simp add: testApp_def twoWords_def)
  have words: "set (WordList testApp) = {\<lparr>Word = ''APPLE'', Hint = ''fruit''\<rparr>, \<lparr>Word = ''TABLE'', Hint = ''furniture''\<rparr>}"
    by (auto simp add: testApp_def twoWords_def)
  from GetRandomWordEntryExcluding_result [OF ne, of "\<lparr>ctxDone = False, randInt = Some 7\<rparr>" "[''APPLE'']"]
  have a: "\<exists>e exhausted.
         GetRandomWordEntryExcluding testApp \<lparr>ctxDone = False, randInt = Some 7\<rparr> [''APPLE'']
           = Inr (e, exhausted)
         \<and> Word e = ''TABLE'' \<and> \<not> exhausted"
    unfolding words by auto
  from GetRandomWordEntryExcluding_result [OF ne, of "\<lparr>ctxDone = False, randInt = Some 7\<rparr>" "[''APPLE'', ''TABLE'']"]
  have b: "\<exists>e exhausted.
         GetRandomWordEntryExcluding testApp \<lparr>ctxDone = False, randInt = Some 7\<rparr>
           [''APPLE'', ''TABLE''] = Inr (e, exhausted)
         \<and> e \<in> set (WordList testApp) \<and> exhausted"
    unfolding words by auto
  from ne a b show ?thesis by blast
qed

section \<open>The guess handler: validation\<close>

lemma map_of_update_same: "map_of (AList.update k v al) k = Some v"
  by (simp add: update_conv)

lemma CreateNewGame_stored:
  assumes "CreateNewGame app c now sid = Inr (game, app')"
  shows "\<exists>w. game = newGameState w now
           \<and> app' = app\<lparr>GameSessions := AList.update sid game (GameSessions app)\<rparr>"
  using assms by (auto simp: CreateNewGame_def Let_def split: sum.splits)

lemma GetGameState_stored:
  assumes "GetGameState app c now sid = Inr (gameState, app1)"
  shows "map_of (GameSessions app1) sid = Some gameState
         \<and> AcceptedWordSet app1 = AcceptedWordSet app
         \<and> (case map_of (GameSessions app) sid of
               Some old \<Rightarrow> gameState = old\<lparr>LastAccessTime := now\<rparr>
             | None \<Rightarrow> (\<exists>w. gameState = newGameState w now))"
proof (cases "map_of (GameSessions app) sid")
  case None
  with assms have "CreateNewGame app c now sid = Inr (gameState, app1)"
    by (simp add: GetGameState_def GetGameState_lookup_def GetGameState_finish_def)
  from CreateNewGame_stored [OF this] None show ?thesis
    by (auto simp: map_of_update_same)
next
  case (Some old)
  with assms show ?thesis
    by (auto simp: GetGameState_def GetGameState_lookup_def GetGameState_finish_def Let_def
        map_of_update_same)
qed

lemma ProcessGuess_error:
  assumes "ProcessGuess app c' now' now'' sid gameState guess = Inr (Some code, app')"
  shows "app' = app
         \<and> (if length guess \<noteq> WordLength then code = ErrorCodeInvalidLength
            else code = ErrorCodeNoMoreGuesses \<and> int MaxGuesses \<le> CurrentRow gameState)"
  using assms
  by (auto simp: ProcessGuess_def Let_def split: if_splits sum.splits prod.splits)

lemma GuessHandler_error:
  assumes "GuessHandler lib app c c' now now' now'' sid input = Inr (Some code, app')"
  shows "\<exists>gameState. GetGameState app c now sid = Inr (gameState, app')
           \<and> code \<in> {ErrorCodeGameOver, ErrorCodeWordNotAccepted, ErrorCodeDuplicateGuess,
                       ErrorCodeInvalidLength, ErrorCodeNoMoreGuesses}"
proof (cases "GetGameState app c now sid")
  case (Inl p)
  with assms show ?thesis by (simp add: GuessHandler_def)
next
  case (Inr r)
  obtain gameState app1 where r: "r = (gameState, app1)" by (cases r)
  show ?thesis
  proof (cases "GameOver gameState")
    case True
    with assms Inr r show ?thesis
      by (auto simp: GuessHandler_def ValidateGameState_def)
  next
    case False
    note notOver = this
    show ?thesis
    proof (cases "IsAcceptedWord app1 (NormalizeGuess lib input)
                  \<and> NormalizeGuess lib input \<notin> set (GuessHistory gameState)")
      case False
      with assms Inr r notOver show ?thesis
        by (auto simp: GuessHandler_def ValidateGameState_def Let_def split: if_splits)
    next
      case True
      with assms Inr r notOver have
        "ProcessGuess app1 c' now' now'' sid gameState (NormalizeGuess lib input)
           = Inr (Some code, app')"
        by (simp add: GuessHandler_def ValidateGameState_def Let_def)
      from ProcessGuess_error [OF this] Inr r show ?thesis
        by (auto split: if_splits)
    qed
  qed
qed

text \<open>C9. Whenever the guess handler renders an error code, the code is one of the five
  validation errors and the state of the session has the rows, the history, the current
  row, the won and game-over flags and the revealed target word it had before the call
  (for a session that had no state yet: those of the new game the call created).\<close>

theorem GuessHandler_error_keeps_state:
  assumes "GuessHandler lib app c c' now now' now'' sid input = Inr (Some code, app')"
  shows "code \<in> {ErrorCodeGameOver, ErrorCodeWordNotAccepted, ErrorCodeDuplicateGuess,
                  ErrorCodeInvalidLength, ErrorCodeNoMoreGuesses}
         \<and> (\<exists>game'. map_of (GameSessions app') sid = Some game'
               \<and> (case map_of (GameSessions app) sid of
                     Some game \<Rightarrow>
                       Guesses game' = Guesses game \<and> GuessHistory game' = GuessHistory game
                       \<and> CurrentRow game' = CurrentRow game \<and> Won game' = Won game
                       \<and> GameOver game' = GameOver game \<and> TargetWord game' = TargetWord game
                   | None \<Rightarrow>
                       Guesses game' = emptyBoard \<and> GuessHistory game' = []
                       \<and> CurrentRow game' = 0 \<and> \<not> Won game' \<and> \<not> GameOver game'
                       \<and> TargetWord game' = []))"
proof -
  from GuessHandler_error [OF assms] obtain gameState where
    g: "GetGameState app c now sid = Inr (gameState, app')" and
    code: "code \<in> {ErrorCodeGameOver, ErrorCodeWordNotAccepted, ErrorCodeDuplicateGuess,
                    ErrorCodeInvalidLength, ErrorCodeNoMoreGuesses}"
    by blast
  from GetGameState_stored [OF g] have
    "map_of (GameSessions app') sid = Some gameState"
    "case map_of (GameSessions app) sid of
       Some old \<Rightarrow> gameState = old\<lparr>LastAccessTime := now\<rparr>
     | None \<Rightarrow> (\<exists>w. gameState = newGameState w now)"
    by simp_all
  then have "\<exists>game'. map_of (GameSessions app') sid = Some game'
               \<and> (case map_of (GameSessions app) sid of
                     Some game \<Rightarrow>
                       Guesses game' = Guesses game \<and> GuessHistory game' = GuessHistory game
                       \<and> CurrentRow game' = CurrentRow game \<and> Won game' = Won game
                       \<and> GameOver game' = GameOver game \<and> TargetWord game' = TargetWord game
                   | None \<Rightarrow>
                       Guesses game' = emptyBoard \<and> GuessHistory game' = []
                       \<and> CurrentRow game' = 0 \<and> \<not> Won game' \<and> \<not> GameOver game'
                       \<and> TargetWord game' = [])"
    by (auto simp: newGameState_def split: option.splits)
  with code show ?thesis by blast
qed

theorem GuessHandler_error_keeps_state_witness:
  "GuessHandler asciiStrings playingApp ctx0 ctx0 20 21 22 ''s1'' '' robin ''
     = Inr (Some ErrorCodeDuplicateGuess,
            playingApp\<lparr>GameSessions := [(''s1'', oneGuessGame\<lparr>LastAccessTime := 20\<rparr>)]\<rparr>)
   \<and> (\<exists>game'.
         map_of (GameSessions
                  (playingApp\<lparr>GameSessions := [(''s1'', oneGuessGame\<lparr>LastAccessTime := 20\<rparr>)]\<rparr>))
           ''s1'' = Some game'
         \<and> Guesses game' = Guesses oneGuessGame \<and> GuessHistory game' = [''ROBIN'']
         \<and> CurrentRow game' = 1 \<and> \<not> Won game' \<and> \<not> GameOver game' \<and> TargetWord game' = [])"
proof -
  have run: "GuessHandler asciiStrings playingApp ctx0 ctx0 20 21 22 ''s1'' '' robin ''
     = Inr (Some ErrorCodeDuplicateGuess,
            playingApp\<lparr>GameSessions := [(''s1'', oneGuessGame\<lparr>LastAccessTime := 20\<rparr>)]\<rparr>)"
    by code_simp
  have old: "map_of (GameSessions playingApp) ''s1'' = Some oneGuessGame"
    by (simp add: playingApp_def)
  from GuessHandler_error_keeps_state [OF run] old run show ?thesis
    by (auto simp: oneGuessGame_def)
qed

lemma ProcessGuess_valid_no_error:
  assumes "length guess = WordLength" "\<not> int MaxGuesses \<le> CurrentRow gameState"
  shows "ProcessGuess app c' now' now'' sid gameState guess \<noteq> Inr (Some code, app')"
  using assms
  by (auto simp: ProcessGuess_def Let_def split: sum.splits prod.splits)

text \<open>C3, as the code has it. On the state \<^verbatim>\<open>GetGameState\<close> hands to the handler the checks
  run in the order game over, acceptance, duplicate, length, attempts left: the error code
  rendered is that of the first check in this order that fails, the application state is the
  one \<^verbatim>\<open>GetGameState\<close> left, and when no check fails no error code is rendered (the guess
  is played).\<close>

theorem GuessHandler_validation_order:
  assumes "GetGameState app c now sid = Inr (gameState, app1)"
  shows "let guess = NormalizeGuess lib input;
             outcome = GuessHandler lib app c c' now now' now'' sid input
         in
           if GameOver gameState then outcome = Inr (Some ErrorCodeGameOver, app1)
           else if guess \<notin> AcceptedWordSet app
           then outcome = Inr (Some ErrorCodeWordNotAccepted, app1)
           else if guess \<in> set (GuessHistory gameState)
           then outcome = Inr (Some ErrorCodeDuplicateGuess, app1)
           else if length guess \<noteq> WordLength
           then outcome = Inr (Some ErrorCodeInvalidLength, app1)
           else if int MaxGuesses \<le> CurrentRow gameState
           then outcome = Inr (Some ErrorCodeNoMoreGuesses, app1)
           else (\<forall>code app'. outcome \<noteq> Inr (Some code, app'))"
proof -
  have acc: "AcceptedWordSet app1 = AcceptedWordSet app"
    using GetGameState_stored [OF assms] by simp
  show ?thesis
    using assms acc ProcessGuess_valid_no_error [of "NormalizeGuess lib input" gameState]
    by (auto simp: GuessHandler_def ValidateGameState_def IsAcceptedWord_def Let_def
        ProcessGuess_def)
qed

theorem GuessHandler_validation_order_witness:
  "GetGameState playingApp ctx0 20 ''s1''
     = Inr (oneGuessGame\<lparr>LastAccessTime := 20\<rparr>,
            playingApp\<lparr>GameSessions := [(''s1'', oneGuessGame\<lparr>LastAccessTime := 20\<rparr>)]\<rparr>)
   \<and> GuessHandler asciiStrings playingApp ctx0 ctx0 20 21 22 ''s1'' ''robin''
     = Inr (Some ErrorCodeDuplicateGuess,
            playingApp\<lparr>GameSessions := [(''s1'', oneGuessGame\<lparr>LastAccessTime := 20\<rparr>)]\<rparr>)"
proof -
  have g: "GetGameState playingApp ctx0 20 ''s1''
     = Inr (oneGuessGame\<lparr>LastAccessTime := 20\<rparr>,
            playingApp\<lparr>GameSessions := [(''s1'', oneGuessGame\<lparr>LastAccessTime := 20\<rparr>)]\<rparr>)"
    by code_simp
  have n: "NormalizeGuess asciiStrings ''robin'' = ''ROBIN''"
    by code_simp
  from GuessHandler_validation_order [OF g, where lib = asciiStrings and input = "''robin''"
      and c' = ctx0 and now' = 21 and now'' = 22] g show ?thesis
    unfolding n by (simp add: Let_def oneGuessGame_def playingApp_def testApp_def)
qed

text \<open>C3 as stated fails: the length check is not the first one. A guess of three letters
  that is not an accepted word gets the acceptance error, and on a game that is over it
  gets the game-over error.\<close>

theorem GuessHandler_length_first_counterexample:
  "length (NormalizeGuess asciiStrings ''abc'') \<noteq> WordLength
   \<and> NormalizeGuess asciiStrings ''abc'' \<notin> AcceptedWordSet playingApp
   \<and> map_sum id fst (GuessHandler asciiStrings playingApp ctx0 ctx0 20 21 22 ''s1'' ''abc'')
       = Inr (Some ErrorCodeWordNotAccepted)
   \<and> map_sum id fst
        (GuessHandler asciiStrings (testApp\<lparr>GameSessions := [(''s1'', wonFirstRow)]\<rparr>) ctx0 ctx0 20 21 22
           ''s1'' ''abc'')
       = Inr (Some ErrorCodeGameOver)"
  by code_simp

section \<open>The reveal of the target word\<close>

lemma newGameState_hidden:
  "\<not> GameOver (newGameState w now) \<and> \<not> Won (newGameState w now)
   \<and> TargetWord (newGameState w now) = [] \<and> SessionWord (newGameState w now) = w
   \<and> CurrentRow (newGameState w now) = 0 \<and> GuessHistory (newGameState w now) = []
   \<and> Guesses (newGameState w now) = emptyBoard"
  by (simp add: newGameState_def)

lemma GetRandomWordEntryExcluding_total:
  assumes "WordList app \<noteq> []"
  shows "\<exists>e exhausted. GetRandomWordEntryExcluding app c completedWords = Inr (e, exhausted)"
proof -
  let ?avail = "filter (\<lambda>entry. Word entry \<notin> set completedWords) (WordList app)"
  obtain e0 where e0: "GetRandomWordEntry app c = Inr e0"
    using GetRandomWordEntry_member [OF assms] by blast
  show ?thesis
  proof (cases "completedWords = [] \<or> ?avail = []")
    case True
    with e0 show ?thesis
      by (auto simp: GetRandomWordEntryExcluding_def Let_def)
  next
    case False
    then have "0 < length ?avail" by simp
    then have "\<And>k. at_index ?avail (k mod length ?avail) = Inr (?avail ! (k mod length ?avail))"
      and "at_index ?avail 0 = Inr (?avail ! 0)"
      by (simp_all add: at_index_def)
    with False show ?thesis
      by (auto simp: GetRandomWordEntryExcluding_def Let_def rand_Int_def split: option.splits)
  qed
qed

lemma CreateNewGame_total:
  assumes "WordList app \<noteq> []"
  shows "\<exists>w. CreateNewGame app c now sid
           = Inr (newGameState w now,
                  app\<lparr>GameSessions := AList.update sid (newGameState w now) (GameSessions app)\<rparr>)"
proof -
  obtain e where "GetRandomWordEntry app c = Inr e"
    using GetRandomWordEntry_member [OF assms] by blast
  then show ?thesis by (auto simp: CreateNewGame_def Let_def)
qed

lemma CreateNewGameWithCompletedWords_total:
  assumes "WordList app \<noteq> []"
  shows "\<exists>w exhausted. CreateNewGameWithCompletedWords app c now sid completedWords
           = Inr ((newGameState w now, exhausted),
                  app\<lparr>GameSessions := AList.update sid (newGameState w now) (GameSessions app)\<rparr>)"
proof -
  obtain e exhausted where "GetRandomWordEntryExcluding app c completedWords = Inr (e, exhausted)"
    using GetRandomWordEntryExcluding_total [OF assms] by blast
  then show ?thesis by (auto simp: CreateNewGameWithCompletedWords_def Let_def)
qed

lemma RetryWordHandler_total:
  assumes "WordList app \<noteq> [] \<or> map_of (GameSessions app) sid \<noteq> None"
  shows "\<exists>w. RetryWordHandler app c now sid
           = Inr (app\<lparr>GameSessions := AList.update sid (newGameState w now) (GameSessions app)\<rparr>)
           \<and> (\<forall>old. map_of (GameSessions app) sid = Some old \<longrightarrow> w = SessionWord old)"
proof (cases "map_of (GameSessions app) sid")
  case None
  with assms have "WordList app \<noteq> []" by simp
  from CreateNewGame_total [OF this, of c now sid] None show ?thesis
    by (auto simp: RetryWordHandler_def)
next
  case (Some old)
  then show ?thesis by (simp add: RetryWordHandler_def)
qed

lemma UpdateGameState_total:
  assumes "int MaxGuesses \<le> CurrentRow game
           \<or> 0 \<le> CurrentRow game \<and> CurrentRow game < int (length (Guesses game))"
  shows "\<exists>game'. UpdateGameState now game guess targetWord result isInvalid = Inr game'"
  using assms by (auto simp: UpdateGameState_def Let_def)

lemma UpdateGameState_fields:
  assumes "UpdateGameState now game guess targetWord result isInvalid = Inr game'"
  shows "GameOver game'
           = (if int MaxGuesses \<le> CurrentRow game then GameOver game
              else GameOver game \<or> \<not> isInvalid \<and> guess = targetWord
                   \<or> int MaxGuesses \<le> CurrentRow game + 1)"
    and "TargetWord game'
           = (if int MaxGuesses \<le> CurrentRow game then TargetWord game
              else if GameOver game' then targetWord else TargetWord game)"
  using assms by (auto simp: UpdateGameState_def Let_def split: if_splits)

text \<open>C8. \<^verbatim>\<open>CreateNewGame\<close> and \<^verbatim>\<open>CreateNewGameWithCompletedWords\<close> on a catalog that has a
  word, and \<^verbatim>\<open>RetryWordHandler\<close> on such a catalog or on a session that has a state, return,
  and the state they store under the session id is not over and has an empty \<open>TargetWord\<close>
  (the retry keeps the session word of the state it replaces). \<^verbatim>\<open>UpdateGameState\<close> returns
  whenever the current row has reached \<^verbatim>\<open>MaxGuesses\<close> or is a row of the board; the state
  it returns is over exactly when the call passed the row guard and the game was over
  already, the guess won or the last row was used, or the guard stopped the call on a
  game that was over; \<open>TargetWord\<close> is the target when the call passed the guard and the
  game is over after it, and is what it was otherwise. So a call with a target that is
  not empty keeps "the target word is revealed exactly when the game is over", and on a
  game that is not over with nothing revealed the reveal happens exactly on the call
  that ends the game.\<close>

theorem targetWord_revealed_iff_gameOver:
  "(WordList app \<noteq> []
      \<longrightarrow> (\<exists>game app'. CreateNewGame app c now sid = Inr (game, app')
             \<and> map_of (GameSessions app') sid = Some game
             \<and> \<not> GameOver game \<and> TargetWord game = [])
          \<and> (\<exists>game exhausted app'.
                CreateNewGameWithCompletedWords app c now sid completedWords
                  = Inr ((game, exhausted), app')
                \<and> map_of (GameSessions app') sid = Some game
                \<and> \<not> GameOver game \<and> TargetWord game = []))
   \<and> (WordList app \<noteq> [] \<or> map_of (GameSessions app) sid \<noteq> None
      \<longrightarrow> (\<exists>game app'. RetryWordHandler app c now sid = Inr app'
             \<and> map_of (GameSessions app') sid = Some game
             \<and> \<not> GameOver game \<and> TargetWord game = []
             \<and> (\<forall>old. map_of (GameSessions app) sid = Some old
                   \<longrightarrow> SessionWord game = SessionWord old)))
   \<and> (int MaxGuesses \<le> CurrentRow game
        \<or> 0 \<le> CurrentRow game \<and> CurrentRow game < int (length (Guesses game))
      \<longrightarrow> (\<exists>game'. UpdateGameState now game guess targetWord result isInvalid = Inr game'
             \<and> GameOver game'
                 = (if int MaxGuesses \<le> CurrentRow game then GameOver game
                    else GameOver game \<or> \<not> isInvalid \<and> guess = targetWord
                         \<or> int MaxGuesses \<le> CurrentRow game + 1)
             \<and> TargetWord game'
                 = (if int MaxGuesses \<le> CurrentRow game then TargetWord game
                    else if GameOver game' then targetWord else TargetWord game)
             \<and> (targetWord \<noteq> [] \<and> (TargetWord game \<noteq> []) = GameOver game
                  \<longrightarrow> (TargetWord game' \<noteq> []) = GameOver game')
             \<and> (\<not> GameOver game \<and> TargetWord game = []
                  \<longrightarrow> TargetWord game' = (if GameOver game' then targetWord else []))))"
proof (intro conjI impI)
  assume w: "WordList app \<noteq> []"
  from CreateNewGame_total [OF w, of c now sid] newGameState_hidden
  show "\<exists>game app'. CreateNewGame app c now sid = Inr (game, app')
             \<and> map_of (GameSessions app') sid = Some game
             \<and> \<not> GameOver game \<and> TargetWord game = []"
    by (auto simp: map_of_update_same)
  from CreateNewGameWithCompletedWords_total [OF w, of c now sid completedWords]
    newGameState_hidden
  show "\<exists>game exhausted app'.
                CreateNewGameWithCompletedWords app c now sid completedWords
                  = Inr ((game, exhausted), app')
                \<and> map_of (GameSessions app') sid = Some game
                \<and> \<not> GameOver game \<and> TargetWord game = []"
    by (auto simp: map_of_update_same)
next
  assume "WordList app \<noteq> [] \<or> map_of (GameSessions app) sid \<noteq> None"
  from RetryWordHandler_total [OF this, of c now] newGameState_hidden
  show "\<exists>game app'. RetryWordHandler app c now sid = Inr app'
             \<and> map_of (GameSessions app') sid = Some game
             \<and> \<not> GameOver game \<and> TargetWord game = []
             \<and> (\<forall>old. map_of (GameSessions app) sid = Some old
                   \<longrightarrow> SessionWord game = SessionWord old)"
    by (auto simp: map_of_update_same)
next
  assume "int MaxGuesses \<le> CurrentRow game
        \<or> 0 \<le> CurrentRow game \<and> CurrentRow game < int (length (Guesses game))"
  from UpdateGameState_total [OF this]
  obtain game' where u: "UpdateGameState now game guess targetWord result isInvalid = Inr game'"
    by blast
  note f = UpdateGameState_fields [OF u]
  have inv: "(TargetWord game' \<noteq> []) = GameOver game'"
    if "targetWord \<noteq> [] \<and> (TargetWord game \<noteq> []) = GameOver game"
    using that f by (auto split: if_splits)
  have fresh: "TargetWord game' = (if GameOver game' then targetWord else [])"
    if "\<not> GameOver game \<and> TargetWord game = []"
    using that f by (auto split: if_splits)
  from u f inv fresh
  show "\<exists>game'. UpdateGameState now game guess targetWord result isInvalid = Inr game'
             \<and> GameOver game'
                 = (if int MaxGuesses \<le> CurrentRow game then GameOver game
                    else GameOver game \<or> \<not> isInvalid \<and> guess = targetWord
                         \<or> int MaxGuesses \<le> CurrentRow game + 1)
             \<and> TargetWord game'
                 = (if int MaxGuesses \<le> CurrentRow game then TargetWord game
                    else if GameOver game' then targetWord else TargetWord game)
             \<and> (targetWord \<noteq> [] \<and> (TargetWord game \<noteq> []) = GameOver game
                  \<longrightarrow> (TargetWord game' \<noteq> []) = GameOver game')
             \<and> (\<not> GameOver game \<and> TargetWord game = []
                  \<longrightarrow> TargetWord game' = (if GameOver game' then targetWord else []))"
    by (intro exI [of _ game'] conjI impI) assumption+
qed

theorem targetWord_revealed_iff_gameOver_witness:
  "WordList testApp \<noteq> []
   \<and> CreateNewGame testApp ctx0 0 ''s1''
       = Inr (newGameState ''APPLE'' 0,
              testApp\<lparr>GameSessions := [(''s1'', newGameState ''APPLE'' 0)]\<rparr>)
   \<and> CreateNewGameWithCompletedWords testApp ctx0 0 ''s1'' [''APPLE'']
       = Inr ((newGameState ''TABLE'' 0, False),
              testApp\<lparr>GameSessions := [(''s1'', newGameState ''TABLE'' 0)]\<rparr>)
   \<and> map_of (GameSessions staleApp) ''s2'' = Some (wonFirstRow\<lparr>LastAccessTime := 950\<rparr>)
   \<and> RetryWordHandler staleApp ctx1 1000 ''s2''
       = Inr (staleApp\<lparr>GameSessions :=
                         [(''s1'', oneGuessGame), (''s2'', newGameState ''APPLE'' 1000)]\<rparr>)
   \<and> \<not> GameOver (newGameState ''APPLE'' 1000) \<and> TargetWord (newGameState ''APPLE'' 1000) = []
   \<and> UpdateGameState 10 (newGameState ''APPLE'' 0) ''APPLE'' ''APPLE'' rowAllCorrect False
       = Inr wonFirstRow
   \<and> GameOver wonFirstRow \<and> TargetWord wonFirstRow = ''APPLE''
   \<and> UpdateGameState 10 (newGameState ''APPLE'' 0) ''ROBIN'' ''APPLE'' rowAllAbsent True
       = Inr (oneGuessGame\<lparr>LastAccessTime := 10\<rparr>)
   \<and> \<not> GameOver (oneGuessGame\<lparr>LastAccessTime := 10\<rparr>)
   \<and> TargetWord (oneGuessGame\<lparr>LastAccessTime := 10\<rparr>) = []"
proof -
  have w: "WordList testApp \<noteq> []" "WordList staleApp \<noteq> []"
    by (simp_all add: staleApp_def testApp_def twoWords_def)
  have create: "CreateNewGame testApp ctx0 0 ''s1''
     = Inr (newGameState ''APPLE'' 0,
            testApp\<lparr>GameSessions := [(''s1'', newGameState ''APPLE'' 0)]\<rparr>)"
    by code_simp
  have excl: "CreateNewGameWithCompletedWords testApp ctx0 0 ''s1'' [''APPLE'']
       = Inr ((newGameState ''TABLE'' 0, False),
              testApp\<lparr>GameSessions := [(''s1'', newGameState ''TABLE'' 0)]\<rparr>)"
    by code_simp
  have old: "map_of (GameSessions staleApp) ''s2'' = Some (wonFirstRow\<lparr>LastAccessTime := 950\<rparr>)"
    by (simp add: staleApp_def)
  have retry: "RetryWordHandler staleApp ctx1 1000 ''s2''
       = Inr (staleApp\<lparr>GameSessions :=
                         [(''s1'', oneGuessGame), (''s2'', newGameState ''APPLE'' 1000)]\<rparr>)"
    by (simp add: RetryWordHandler_def old) (simp add: staleApp_def wonFirstRow_def)
  have win: "UpdateGameState 10 (newGameState ''APPLE'' 0) ''APPLE'' ''APPLE'' rowAllCorrect False
       = Inr wonFirstRow"
    by code_simp
  have miss: "UpdateGameState 10 (newGameState ''APPLE'' 0) ''ROBIN'' ''APPLE'' rowAllAbsent True
       = Inr (oneGuessGame\<lparr>LastAccessTime := 10\<rparr>)"
    by code_simp
  have start: "\<not> GameOver (newGameState ''APPLE'' 0) \<and> TargetWord (newGameState ''APPLE'' 0) = []"
    "0 \<le> CurrentRow (newGameState ''APPLE'' 0)
      \<and> CurrentRow (newGameState ''APPLE'' 0) < int (length (Guesses (newGameState ''APPLE'' 0)))"
    "\<not> int MaxGuesses \<le> CurrentRow (newGameState ''APPLE'' 0)"
    "\<not> int MaxGuesses \<le> CurrentRow (newGameState ''APPLE'' 0) + 1"
    by (simp_all add: newGameState_def emptyBoard_def MaxGuesses_def)
  note t = targetWord_revealed_iff_gameOver
  from t [where app = staleApp and sid = "''s2''" and c = ctx1 and now = 1000] w old retry
  have r: "\<not> GameOver (newGameState ''APPLE'' 1000) \<and> TargetWord (newGameState ''APPLE'' 1000) = []"
    by (auto simp: map_of_update_same staleApp_def)
  from t [where game = "newGameState ''APPLE'' 0" and now = 10 and guess = "''APPLE''"
      and targetWord = "''APPLE''" and result = rowAllCorrect and isInvalid = False] win start
  have a: "GameOver wonFirstRow \<and> TargetWord wonFirstRow = ''APPLE''"
    by auto
  from t [where game = "newGameState ''APPLE'' 0" and now = 10 and guess = "''ROBIN''"
      and targetWord = "''APPLE''" and result = rowAllAbsent and isInvalid = True] miss start
  have b: "\<not> GameOver (oneGuessGame\<lparr>LastAccessTime := 10\<rparr>)
      \<and> TargetWord (oneGuessGame\<lparr>LastAccessTime := 10\<rparr>) = []"
    by auto
  from w(1) create excl old retry r win miss a b show ?thesis by simp
qed

text \<open>C8, where the claim as worded fails. A game won on the first row is over with its
  current row still 0, so a further call of \<^verbatim>\<open>UpdateGameState\<close> passes the row guard and,
  the game being over, writes \<open>TargetWord\<close> again: the game did not become over on that
  call, and the word revealed changes from \<^verbatim>\<open>APPLE\<close> to the target of the call, \<^verbatim>\<open>TABLE\<close>.
  And a call with an empty target on the last row ends the game with nothing revealed:
  the state returned is over and its \<open>TargetWord\<close> is empty.\<close>

theorem UpdateGameState_reveal_counterexample:
  "GameOver wonFirstRow \<and> TargetWord wonFirstRow = ''APPLE''
   \<and> map_sum id GameOver (UpdateGameState 20 wonFirstRow ''ROBIN'' ''TABLE'' rowAllAbsent False)
       = Inr True
   \<and> map_sum id TargetWord (UpdateGameState 20 wonFirstRow ''ROBIN'' ''TABLE'' rowAllAbsent False)
       = Inr ''TABLE''
   \<and> \<not> GameOver ((newGameState ''APPLE'' 0)\<lparr>CurrentRow := 5\<rparr>)
   \<and> TargetWord ((newGameState ''APPLE'' 0)\<lparr>CurrentRow := 5\<rparr>) = []
   \<and> map_sum id GameOver
         (UpdateGameState 20 ((newGameState ''APPLE'' 0)\<lparr>CurrentRow := 5\<rparr>) ''ROBIN'' []
            rowAllAbsent False)
       = Inr True
   \<and> map_sum id TargetWord
         (UpdateGameState 20 ((newGameState ''APPLE'' 0)\<lparr>CurrentRow := 5\<rparr>) ''ROBIN'' []
            rowAllAbsent False)
       = Inr []"
  by (simp add: UpdateGameState_def wonFirstRow_def newGameState_def emptyBoard_def
      MaxGuesses_def Let_def)

section \<open>Creating a rate limiter\<close>

lemma go_div_positive: "0 < b \<Longrightarrow> 0 \<le> a \<Longrightarrow> go_div a b = Inr (a div b)"
  by (simp add: go_div_def)

text \<open>C10. \<^verbatim>\<open>getLimiter\<close> returns a limiter for every key, every clock reading and every
  configuration and stores it under the key with the clock reading: it never panics. For a
  key it has not seen, the divisor of \<^verbatim>\<open>time.Second\<close> is positive (the configured
  requests per second, or 1 when that value is zero or negative), the division does not
  panic, and the limiter is made from its quotient; with a configured value of zero or
  less the limiter allows one event per second.\<close>

theorem getLimiter_total:
  "\<exists>lim app'.
     getLimiter app now key = Inr (lim, app')
     \<and> map_of (LimiterMap app') key = Some \<lparr>Limiter = lim, LastAccess = now\<rparr>
     \<and> (map_of (LimiterMap app) key = None
          \<longrightarrow> (\<exists>rps. 0 < rps \<and> rps = (if RateLimitRPS app \<le> 0 then 1 else RateLimitRPS app)
                 \<and> go_div Second rps = Inr (Second div rps)
                 \<and> lim = NewLimiter (rate_Every (Second div rps)) (RateLimitBurst app)))
     \<and> (map_of (LimiterMap app) key = None \<and> RateLimitRPS app \<le> 0
          \<longrightarrow> limit lim = EventEvery Second)"
proof (cases "map_of (LimiterMap app) key")
  case (Some l)
  then show ?thesis
    by (simp add: getLimiter_def map_of_update_same)
next
  case None
  define rps where "rps = (if RateLimitRPS app \<le> 0 then 1 else RateLimitRPS app)"
  have pos: "0 < rps" by (simp add: rps_def)
  have d: "go_div Second rps = Inr (Second div rps)"
    using pos by (simp add: go_div_positive Second_def)
  have one: "RateLimitRPS app \<le> 0 \<Longrightarrow> rate_Every (Second div rps) = EventEvery Second"
    by (simp add: rps_def rate_Every_def Second_def)
  from None d pos one show ?thesis
    unfolding getLimiter_def rps_def [symmetric]
    by (auto simp: Let_def map_of_update_same NewLimiter_def rps_def)
qed

theorem getLimiter_total_witness:
  "map_of (LimiterMap (testApp\<lparr>RateLimitRPS := - 3\<rparr>)) ''10.0.0.1'' = None
   \<and> RateLimitRPS (testApp\<lparr>RateLimitRPS := - 3\<rparr>) \<le> 0
   \<and> (\<exists>lim app'. getLimiter (testApp\<lparr>RateLimitRPS := - 3\<rparr>) 7 ''10.0.0.1'' = Inr (lim, app')
         \<and> lim = \<lparr>limit = EventEvery 1000000000, burst = 10\<rparr>)"
proof -
  have h: "map_of (LimiterMap (testApp\<lparr>RateLimitRPS := - 3\<rparr>)) ''10.0.0.1'' = None"
    "RateLimitRPS (testApp\<lparr>RateLimitRPS := - 3\<rparr>) \<le> 0"
    "RateLimitBurst (testApp\<lparr>RateLimitRPS := - 3\<rparr>) = 10"
    by (simp_all add: testApp_def)
  from getLimiter_total [of "testApp\<lparr>RateLimitRPS := - 3\<rparr>" 7 "''10.0.0.1''"] h
  show ?thesis
    by (auto simp: NewLimiter_def rate_Every_def Second_def)
qed

section \<open>The sweeps\<close>


lemma filter_delete:
  "filter Q (AList.delete k m) = filter (\<lambda>p. fst p \<noteq> k \<and> Q p) m"
  by (induction m) auto

lemma fold_delete_if:
  "fold (\<lambda>(k, v) m'. if P v then AList.delete k m' else m') xs m
     = filter (\<lambda>p. fst p \<notin> fst ` {x \<in> set xs. P (snd x)}) m"
proof (induction xs arbitrary: m)
  case Nil
  show ?case by simp
next
  case (Cons x xs)
  obtain k v where x: "x = (k, v)" by (cases x)
  show ?case
  proof (cases "P v")
    case True
    have "fold (\<lambda>(k, v) m'. if P v then AList.delete k m' else m') (x # xs) m
            = filter (\<lambda>p. fst p \<notin> fst ` {x \<in> set xs. P (snd x)}) (AList.delete k m)"
      using True x Cons.IH by simp
    also have "\<dots> = filter (\<lambda>p. fst p \<noteq> k \<and> fst p \<notin> fst ` {x \<in> set xs. P (snd x)}) m"
      by (rule filter_delete)
    also have "{y \<in> set (x # xs). P (snd y)} = insert x {x \<in> set xs. P (snd x)}"
      using True x by auto
    then have "(\<lambda>p. fst p \<noteq> k \<and> fst p \<notin> fst ` {x \<in> set xs. P (snd x)})
                 = (\<lambda>p. fst p \<notin> fst ` {y \<in> set (x # xs). P (snd y)})"
      using x by auto
    finally show ?thesis .
  next
    case False
    have "{y \<in> set (x # xs). P (snd y)} = {y \<in> set xs. P (snd y)}"
      using False x by auto
    with False x Cons.IH show ?thesis by simp
  qed
qed

lemma distinct_keys_eq:
  assumes "distinct (map fst m)" "x \<in> set m" "y \<in> set m" "fst x = fst y"
  shows "x = y"
  using assms by (metis distinct_map inj_onD)

lemma sweep_is_filter:
  assumes "distinct (map fst m)"
  shows "fold (\<lambda>(k, v) m'. if P v then AList.delete k m' else m') m m
           = filter (\<lambda>(k, v). \<not> P v) m"
proof -
  have "filter (\<lambda>p. fst p \<notin> fst ` {x \<in> set m. P (snd x)}) m = filter (\<lambda>(k, v). \<not> P v) m"
  proof (rule filter_cong [OF refl])
    fix p assume p: "p \<in> set m"
    have "fst p \<in> fst ` {x \<in> set m. P (snd x)} \<longleftrightarrow> P (snd p)"
    proof
      assume "fst p \<in> fst ` {x \<in> set m. P (snd x)}"
      then obtain x where x: "x \<in> set m" "P (snd x)" "fst p = fst x" by auto
      from distinct_keys_eq [OF assms p x(1) x(3)] x(2) show "P (snd p)" by simp
    next
      assume "P (snd p)"
      with p show "fst p \<in> fst ` {x \<in> set m. P (snd x)}" by auto
    qed
    then show "(fst p \<notin> fst ` {x \<in> set m. P (snd x)}) = (case p of (k, v) \<Rightarrow> \<not> P v)"
      by (cases p) simp
  qed
  then show ?thesis by (simp add: fold_delete_if)
qed



lemma removeStale_filter:
  assumes "distinct (map fst m)"
  shows "removeStale cutoff m = filter (\<lambda>(k, l). \<not> LastAccess l < cutoff) m"
  using sweep_is_filter [OF assms, of "\<lambda>l. LastAccess l < cutoff"]
  by (simp add: removeStale_def)

lemma emergencyCleanup_small: "length m \<le> 50000 \<Longrightarrow> emergencyCleanup m = m"
  by (simp add: emergencyCleanup_def)

lemma fold_delete_keys:
  "fold (\<lambda>k m'. AList.delete k m') ks m = filter (\<lambda>p. fst p \<notin> set ks) m"
proof (induction ks arbitrary: m)
  case Nil
  show ?case by simp
next
  case (Cons k ks)
  have "(\<lambda>p. fst p \<noteq> k \<and> fst p \<notin> set ks) = (\<lambda>p::'a \<times> 'b. fst p \<notin> set (k # ks))"
    by auto
  then show ?case
    by (simp add: Cons.IH filter_delete)
qed

lemma fold_delete_indexed:
  "fold (\<lambda>i m'. AList.delete (fst (xs ! i)) m') js m
     = filter (\<lambda>p. fst p \<notin> set (map (\<lambda>i. fst (xs ! i)) js)) m"
proof -
  have "fold (\<lambda>i m'. AList.delete (fst (xs ! i)) m') js m
          = fold (\<lambda>k m'. AList.delete k m') (map (\<lambda>i. fst (xs ! i)) js) m"
    by (simp add: fold_map comp_def)
  then show ?thesis by (simp only: fold_delete_keys)
qed






lemma index_keys:
  assumes "n \<le> length xs"
  shows "map (\<lambda>i. fst (xs ! i)) [0..<n] = map fst (take n xs)"
  using assms by (intro nth_equalityI) auto

lemma emergencyCleanup_large:
  assumes "50000 < length m"
  shows "emergencyCleanup m
           = filter (\<lambda>p. fst p \<notin> fst ` set (take (length m div 2)
                (sort_key snd (map (\<lambda>(key, l). (key, LastAccess l)) m)))) m"
proof -
  let ?sorted = "sort_key snd (map (\<lambda>(key, l). (key, LastAccess l)) m)"
  let ?n = "length m div 2"
  have "?n \<le> length ?sorted" by simp
  then have keys: "map (\<lambda>i. fst (?sorted ! i)) [0..<?n] = map fst (take ?n ?sorted)"
    by (rule index_keys)
  have "emergencyCleanup m = fold (\<lambda>i m'. AList.delete (fst (?sorted ! i)) m') [0..<?n] m"
    using assms by (simp add: emergencyCleanup_def Let_def)
  also have "\<dots> = filter (\<lambda>p. fst p \<notin> set (map (\<lambda>i. fst (?sorted ! i)) [0..<?n])) m"
    by (rule fold_delete_indexed)
  also have "\<dots> = filter (\<lambda>p. fst p \<notin> fst ` set (take ?n ?sorted)) m"
    by (simp only: keys set_map)
  finally show ?thesis .
qed

lemma sorted_take_drop:
  assumes "sorted (map f xs)" "a \<in> set (take n xs)" "b \<in> set (drop n xs)"
  shows "f a \<le> f b"
proof -
  have "sorted (map f (take n xs) @ map f (drop n xs))"
    using assms(1) by (simp flip: map_append)
  with assms(2,3) show ?thesis
    by (auto simp: sorted_append)
qed

lemma purge_oldest_half:
  fixes m :: "(string \<times> RateLimiterWithTime) list"
  assumes d: "distinct (map fst m)"
  defines "K \<equiv> fst ` set (take (length m div 2)
                (sort_key snd (map (\<lambda>(key, l). (key, LastAccess l)) m)))"
  shows "length (filter (\<lambda>p. fst p \<in> K) m) = length m div 2"
    and "\<forall>x\<in>set (filter (\<lambda>p. fst p \<in> K) m). \<forall>y\<in>set (filter (\<lambda>p. fst p \<notin> K) m).
           LastAccess (snd x) \<le> LastAccess (snd y)"
proof -
  define L where "L = map (\<lambda>(key, l). (key, LastAccess l)) m"
  define sorted_L where "sorted_L = sort_key snd L"
  define n where "n = length m div 2"
  have K: "K = fst ` set (take n sorted_L)"
    by (simp add: K_def L_def sorted_L_def n_def)
  have setL: "set L = (\<lambda>p. (fst p, LastAccess (snd p))) ` set m"
    by (auto simp: L_def case_prod_beta)
  have keysL: "map fst L = map fst m"
    by (simp add: L_def case_prod_beta comp_def)
  have dL: "distinct (map fst L)" using d by (simp only: keysL)
  have dS: "distinct (map fst sorted_L)"
    using dL by (simp add: distinct_map sorted_L_def)
  have lenS: "length sorted_L = length m" by (simp add: sorted_L_def L_def)
  have setS: "set sorted_L = set L" by (simp add: sorted_L_def)
  have dT: "distinct (map fst (take n sorted_L))"
    using dS unfolding take_map [symmetric] by (rule distinct_take)
  have take_sub: "set (take n sorted_L) \<subseteq> set L"
    using set_take_subset [of n sorted_L] setS by simp
  have Ksub: "K \<subseteq> fst ` set m"
  proof
    fix k assume "k \<in> K"
    then obtain e where e: "e \<in> set (take n sorted_L)" "k = fst e" unfolding K by blast
    from e(1) take_sub have "e \<in> set L" by blast
    then obtain z where "z \<in> set m" "e = (fst z, LastAccess (snd z))" unfolding setL by blast
    with e(2) show "k \<in> fst ` set m" by simp
  qed
  have cardK: "card K = n"
  proof -
    have "card K = card (set (map fst (take n sorted_L)))" by (simp add: K)
    also have "\<dots> = length (map fst (take n sorted_L))" using dT by (rule distinct_card)
    also have "\<dots> = n" by (simp add: lenS n_def)
    finally show ?thesis .
  qed
  have inj: "inj_on fst (set m)" using d by (simp add: distinct_map)
  have dm: "distinct m" using d by (simp add: distinct_map)
  have "length (filter (\<lambda>p. fst p \<in> K) m) = card {p \<in> set m. fst p \<in> K}"
  proof -
    have "{x. fst x \<in> K} \<inter> set m = {p \<in> set m. fst p \<in> K}" by blast
    with dm show ?thesis by (simp add: distinct_length_filter)
  qed
  also have "\<dots> = card (fst ` {p \<in> set m. fst p \<in> K})"
  proof (rule card_image [symmetric])
    show "inj_on fst {p \<in> set m. fst p \<in> K}"
      by (rule inj_on_subset [OF inj]) blast
  qed
  also have "fst ` {p \<in> set m. fst p \<in> K} = K"
  proof
    show "fst ` {p \<in> set m. fst p \<in> K} \<subseteq> K" by blast
    show "K \<subseteq> fst ` {p \<in> set m. fst p \<in> K}"
    proof
      fix k assume k: "k \<in> K"
      with Ksub obtain p where "p \<in> set m" "k = fst p" by blast
      with k show "k \<in> fst ` {p \<in> set m. fst p \<in> K}" by blast
    qed
  qed
  finally show "length (filter (\<lambda>p. fst p \<in> K) m) = length m div 2"
    using cardK by (simp add: n_def)
  show "\<forall>x\<in>set (filter (\<lambda>p. fst p \<in> K) m). \<forall>y\<in>set (filter (\<lambda>p. fst p \<notin> K) m).
           LastAccess (snd x) \<le> LastAccess (snd y)"
  proof (intro ballI)
    fix x y
    assume "x \<in> set (filter (\<lambda>p. fst p \<in> K) m)" "y \<in> set (filter (\<lambda>p. fst p \<notin> K) m)"
    then have x: "x \<in> set m" "fst x \<in> K" and y: "y \<in> set m" "fst y \<notin> K" by simp_all
    from x(2) obtain e where e: "e \<in> set (take n sorted_L)" "fst e = fst x"
      unfolding K by force
    from e(1) take_sub have "e \<in> set L" by blast
    then obtain z where z: "z \<in> set m" "e = (fst z, LastAccess (snd z))"
      unfolding setL by blast
    with e(2) have "fst z = fst x" by simp
    from distinct_keys_eq [OF d z(1) x(1) this] z(2) have ex: "e = (fst x, LastAccess (snd x))"
      by simp
    have yS: "(fst y, LastAccess (snd y)) \<in> set sorted_L"
      unfolding setS setL using y(1) by blast
    have "set sorted_L = set (take n sorted_L) \<union> set (drop n sorted_L)"
      by (simp only: set_append [symmetric] append_take_drop_id)
    with yS have "(fst y, LastAccess (snd y)) \<in> set (take n sorted_L)
        \<or> (fst y, LastAccess (snd y)) \<in> set (drop n sorted_L)"
      by blast
    moreover have "(fst y, LastAccess (snd y)) \<notin> set (take n sorted_L)"
    proof
      assume "(fst y, LastAccess (snd y)) \<in> set (take n sorted_L)"
      then have "fst (fst y, LastAccess (snd y)) \<in> K" unfolding K by (rule imageI)
      with y(2) show False by simp
    qed
    ultimately have yd: "(fst y, LastAccess (snd y)) \<in> set (drop n sorted_L)" by blast
    have "sorted (map snd sorted_L)" unfolding sorted_L_def by (rule sorted_sort_key)
    from sorted_take_drop [OF this e(1) yd] ex
    show "LastAccess (snd x) \<le> LastAccess (snd y)" by simp
  qed
qed


text \<open>C7. The limiter sweep on a map with distinct keys, where the survivors are the entries
  whose last access is not before the cutoff \<^verbatim>\<open>time.Now().Add(-app.RateLimiterTTL)\<close>. With at most 50000 survivors
  (10000 or fewer, or more than that) the map after the sweep is the survivors, none
  removed. With more than 50000 survivors the sweep splits them into the entries kept and
  \<open>length survivors div 2\<close> entries removed, and no removed entry was accessed later than a
  kept one: the removed half is the oldest.\<close>

theorem limiter_emergency_purge:
  assumes "distinct (map fst (LimiterMap app))"
  shows "let survivors =
               filter (\<lambda>(k, l). \<not> LastAccess l < cutoffTime now (RateLimiterTTL app)) (LimiterMap app);
             kept = LimiterMap (cleanupStaleRateLimiters now app)
         in (length survivors \<le> 50000 \<longrightarrow> kept = survivors)
            \<and> (50000 < length survivors
                 \<longrightarrow> (\<exists>removed.
                        mset survivors = mset removed + mset kept
                        \<and> length removed = length survivors div 2
                        \<and> kept = filter (\<lambda>p. p \<notin> set removed) survivors
                        \<and> (\<forall>x\<in>set removed. \<forall>y\<in>set kept.
                              LastAccess (snd x) \<le> LastAccess (snd y))))"
proof -
  define S where
    "S = filter (\<lambda>(k, l). \<not> LastAccess l < cutoffTime now (RateLimiterTTL app)) (LimiterMap app)"
  define K where "K = fst ` set (take (length S div 2)
                (sort_key snd (map (\<lambda>(key, l). (key, LastAccess l)) S)))"
  have kept: "LimiterMap (cleanupStaleRateLimiters now app) = emergencyCleanup S"
    by (simp add: cleanupStaleRateLimiters_def Let_def removeStale_filter [OF assms] S_def)
  have dS: "distinct (map fst S)"
    unfolding S_def using assms by (rule distinct_map_filter)
  have small: "length S \<le> 50000 \<Longrightarrow> emergencyCleanup S = S"
    by (rule emergencyCleanup_small)
  have large: "\<exists>removed.
                 mset S = mset removed + mset (emergencyCleanup S)
                 \<and> length removed = length S div 2
                 \<and> emergencyCleanup S = filter (\<lambda>p. p \<notin> set removed) S
                 \<and> (\<forall>x\<in>set removed. \<forall>y\<in>set (emergencyCleanup S).
                       LastAccess (snd x) \<le> LastAccess (snd y))"
    if big: "50000 < length S"
  proof -
    define removed where "removed = filter (\<lambda>p. fst p \<in> K) S"
    have e: "emergencyCleanup S = filter (\<lambda>p. fst p \<notin> K) S"
      unfolding K_def by (rule emergencyCleanup_large [OF big])
    have part: "mset S = mset removed + mset (emergencyCleanup S)"
      unfolding e removed_def by (simp only: mset_filter) (rule multiset_partition)
    have len: "length removed = length S div 2"
      unfolding removed_def K_def by (rule purge_oldest_half(1) [OF dS])
    have "filter (\<lambda>p. fst p \<notin> K) S = filter (\<lambda>p. p \<notin> set removed) S"
      by (rule filter_cong [OF refl]) (simp add: removed_def)
    with e have f: "emergencyCleanup S = filter (\<lambda>p. p \<notin> set removed) S" by simp
    have ord: "\<forall>x\<in>set removed. \<forall>y\<in>set (emergencyCleanup S).
                 LastAccess (snd x) \<le> LastAccess (snd y)"
      unfolding e removed_def K_def by (rule purge_oldest_half(2) [OF dS])
    from part len f ord show ?thesis by blast
  qed
  from small large show ?thesis
    unfolding Let_def kept S_def [symmetric] by blast
qed

lemma length_manyLimiters: "length (manyLimiters n) = n"
  by (simp add: manyLimiters_def)

lemma distinct_manyLimiters: "distinct (map fst (manyLimiters n))"
proof -
  have "map fst (manyLimiters n) = map (\<lambda>i. replicate i (CHR ''k'')) [0..<n]"
    by (simp add: manyLimiters_def comp_def)
  moreover have "inj_on (\<lambda>i. replicate i (CHR ''k'')) (set [0..<n])"
    by (rule inj_onI) (metis length_replicate)
  ultimately show ?thesis by (simp add: distinct_map)
qed

lemma manyLimiters_fresh:
  assumes "cutoff \<le> 0"
  shows "filter (\<lambda>(k, l). \<not> LastAccess l < cutoff) (manyLimiters n) = manyLimiters n"
  using assms by (auto simp: manyLimiters_def filter_id_conv)

theorem limiter_emergency_purge_witness:
  "distinct (map fst (LimiterMap crowdedApp))
   \<and> 50000 < length (filter (\<lambda>(k, l). \<not> LastAccess l < cutoffTime 0 (RateLimiterTTL crowdedApp))
                      (LimiterMap crowdedApp))
   \<and> (\<exists>removed.
         mset (LimiterMap crowdedApp)
           = mset removed + mset (LimiterMap (cleanupStaleRateLimiters 0 crowdedApp))
         \<and> length removed = 25000
         \<and> (\<forall>x\<in>set removed. \<forall>y\<in>set (LimiterMap (cleanupStaleRateLimiters 0 crowdedApp)).
               LastAccess (snd x) \<le> LastAccess (snd y)))
   \<and> distinct (map fst (LimiterMap staleApp))
   \<and> LimiterMap (cleanupStaleRateLimiters 1000 staleApp)
       = [(''10.0.0.2'', \<lparr>Limiter = NewLimiter (EventEvery 200000000) 10, LastAccess = 990\<rparr>)]"
proof -
  have m: "LimiterMap crowdedApp = manyLimiters 50001" "RateLimiterTTL crowdedApp = 0"
    by (simp_all add: crowdedApp_def)
  have d: "distinct (map fst (LimiterMap crowdedApp))"
    by (simp only: m distinct_manyLimiters)
  have s: "filter (\<lambda>(k, l). \<not> LastAccess l < cutoffTime 0 (RateLimiterTTL crowdedApp))
             (LimiterMap crowdedApp) = manyLimiters 50001"
    by (simp only: m) (simp add: manyLimiters_fresh cutoffTime_def wrap64_def)
  have big: "50000 < length (filter (\<lambda>(k, l). \<not> LastAccess l < cutoffTime 0 (RateLimiterTTL crowdedApp))
                      (LimiterMap crowdedApp))"
    by (simp only: s length_manyLimiters)
  from limiter_emergency_purge [OF d, of 0] big
  have a: "\<exists>removed.
         mset (LimiterMap crowdedApp)
           = mset removed + mset (LimiterMap (cleanupStaleRateLimiters 0 crowdedApp))
         \<and> length removed = 25000
         \<and> (\<forall>x\<in>set removed. \<forall>y\<in>set (LimiterMap (cleanupStaleRateLimiters 0 crowdedApp)).
               LastAccess (snd x) \<le> LastAccess (snd y))"
    unfolding Let_def s by (simp only: m length_manyLimiters) auto
  have d': "distinct (map fst (LimiterMap staleApp))"
    by (simp add: staleApp_def)
  have s': "filter (\<lambda>(k, l). \<not> LastAccess l < cutoffTime 1000 (RateLimiterTTL staleApp))
              (LimiterMap staleApp)
       = [(''10.0.0.2'', \<lparr>Limiter = NewLimiter (EventEvery 200000000) 10, LastAccess = 990\<rparr>)]"
    by (simp add: staleApp_def cutoffTime_def wrap64_def)
  from limiter_emergency_purge [OF d', of 1000]
  have b: "LimiterMap (cleanupStaleRateLimiters 1000 staleApp)
       = [(''10.0.0.2'', \<lparr>Limiter = NewLimiter (EventEvery 200000000) 10, LastAccess = 990\<rparr>)]"
    unfolding Let_def s' by simp
  from d big a d' b show ?thesis by blast
qed

section \<open>Scoring a guess\<close>


















































section \<open>Concurrent first access to a session\<close>

text \<open>C2 does not hold of the code. After a lookup that misses, \<^verbatim>\<open>GetGameState\<close> goes
  straight to \<^verbatim>\<open>CreateNewGame\<close>: no write lock is taken and the session id is not looked
  up again. Two calls for a session id that has no state, scheduled so that both lookups
  run before either creation, both miss and both create: two game states are made for the
  one id, the callers hold different states and the map keeps the second. Run one after
  the other, the same two calls create one state.\<close>

theorem GetGameState_race_creates_twice:
  "GetGameState_lookup testApp ''s1'' = None
   \<and> run ''s1'' [(0, ctx0, 1), (1, ctx1, 2), (0, ctx0, 3), (1, ctx1, 4)]
         \<lparr>shared = testApp, calls = [Start, Start], allocated = 0\<rparr>
       = Inr \<lparr>shared = testApp\<lparr>GameSessions := [(''s1'', newGameState ''TABLE'' 4)]\<rparr>,
              calls = [Returned (newGameState ''APPLE'' 3), Returned (newGameState ''TABLE'' 4)],
              allocated = 2\<rparr>
   \<and> run ''s1'' [(0, ctx0, 1), (0, ctx0, 2), (1, ctx1, 3), (1, ctx1, 4)]
         \<lparr>shared = testApp, calls = [Start, Start], allocated = 0\<rparr>
       = Inr \<lparr>shared = testApp\<lparr>GameSessions := [(''s1'', newGameState ''APPLE'' 4)]\<rparr>,
              calls = [Returned (newGameState ''APPLE'' 2), Returned (newGameState ''APPLE'' 4)],
              allocated = 1\<rparr>"
  by code_simp

end
